theory Spec2Isabelle
  imports Main
begin

section \<open>Contesso: the contest tracker's aggregation, classification and bookmark logic\<close>

text \<open>
  The repository is a React front end over a hosted table store. The theory embeds the
  parts of it that carry logic: the three upstream adapters and the upsert of
  \<open>fetchAndSyncContests\<close>, the read-time status ternary, the bookmark toggles of the two
  revisions of the contests page, the time-remaining renderers and the \<open>useTheme\<close> hook.

  Instants are milliseconds since the epoch, as \<open>Date.getTime()\<close> gives them
  (an \<open>int\<close>); an ISO string written by \<open>toISOString()\<close> and read back by
  \<open>new Date(...)\<close> denotes the same instant, so a stored timestamp is modelled by the
  instant itself. A number that may be absent, or a date that may fail to parse, is an
  \<open>int option\<close>: \<open>None\<close> is JavaScript's \<open>NaN\<close>, or the Invalid Date.
  The upstream services deliver whole seconds, and a \<open>Date\<close> holds whole milliseconds.
  JavaScript numbers are doubles: an integer up to \<open>2^53\<close> in absolute value is held
  exactly, and a sum, difference or product of such integers that stays in that range
  is exact. A result beyond it is rounded (\<open>round_double\<close> below).
\<close>

subsection \<open>Template literals: numbers rendered in decimal\<close>

text \<open>
  \<open>`${n}`\<close> prints an integer \<open>n\<close> that a double holds exactly, below \<open>10^21\<close> in
  absolute value, by its decimal digits. \<open>show_int\<close> is used for the days, hours and
  minutes of the time-remaining renderers only, which stay below \<open>10^9\<close>.
\<close>

definition digit_char :: "nat \<Rightarrow> char" where
  "digit_char d = ''0123456789'' ! d"

fun show_nat :: "nat \<Rightarrow> string" where
  "show_nat n = (if n < 10 then [digit_char n] else show_nat (n div 10) @ [digit_char (n mod 10)])"

declare show_nat.simps [simp del]

definition show_int :: "int \<Rightarrow> string" where
  "show_int i = (if i < 0 then CHR ''-'' # show_nat (nat (- i)) else show_nat (nat i))"

subsection \<open>The status ternary\<close>

text \<open>
  part_004, lines 128-132 (and, with the same shape, lines 58-62, 78-82, 103-107 and
  152-156):
  \<^verbatim>\<open>status: contestStart > now ? 'upcoming' : contestEnd > now ? 'current' : 'past'\<close>
  The code's name for the middle status is \<open>current\<close>.
\<close>

datatype status = Upcoming | Current | Past

definition contest_status :: "int \<Rightarrow> int \<Rightarrow> int \<Rightarrow> status" where
  "contest_status contestStart contestEnd now =
     (if contestStart > now then Upcoming
      else if contestEnd > now then Current
      else Past)"

text \<open>The order upcoming < current < past, as a rank.\<close>

fun status_rank :: "status \<Rightarrow> nat" where
  "status_rank Upcoming = 0"
| "status_rank Current = 1"
| "status_rank Past = 2"

subsection \<open>The theme hook\<close>

text \<open>
  part_009, \<open>useTheme\<close>. The state has the type \<open>'light' | 'dark'\<close>; the initialiser reads
  \<open>localStorage.getItem('theme')\<close>, which is a string or null; the effect writes the
  theme to the root element's class list and back to \<open>localStorage\<close>.
\<close>

datatype theme = Light | Dark

fun theme_name :: "theme \<Rightarrow> string" where
  "theme_name Light = ''light''"
| "theme_name Dark = ''dark''"

definition initTheme :: "string option \<Rightarrow> theme" where
  "initTheme savedTheme =
     (if savedTheme = Some ''light'' then Light
      else if savedTheme = Some ''dark'' then Dark
      else Light)"

definition toggleTheme :: "theme \<Rightarrow> theme" where
  "toggleTheme prev = (if prev = Light then Dark else Light)"

record theme_env =
  classList :: "string list"
  storedTheme :: "string option"

definition applyTheme :: "theme \<Rightarrow> theme_env \<Rightarrow> theme_env" where
  "applyTheme t env =
     \<lparr> classList = filter (\<lambda>c. c \<noteq> ''light'' \<and> c \<noteq> ''dark'') (classList env) @ [theme_name t],
       storedTheme = Some (theme_name t) \<rparr>"

subsection \<open>Dates\<close>

text \<open>
  A \<open>Date\<close> holds an instant of at most 8.64e15 milliseconds in absolute value, or is the
  Invalid Date. \<open>new_Date x\<close> is \<open>new Date(x)\<close> for a number \<open>x\<close> (\<open>None\<close> for \<open>NaN\<close>) and
  for a date string (\<open>x\<close> the instant the string denotes, \<open>None\<close> when it does not
  parse); the result \<open>None\<close> is the Invalid Date, on which \<open>toISOString()\<close> throws a
  \<open>RangeError\<close>, \<open>getTime()\<close> gives \<open>NaN\<close> and every comparison is false.
\<close>

definition valid_time :: "int \<Rightarrow> bool" where
  "valid_time t = (- 8640000000000000 \<le> t \<and> t \<le> 8640000000000000)"

definition new_Date :: "int option \<Rightarrow> int option" where
  "new_Date x = (case x of None \<Rightarrow> None | Some t \<Rightarrow> if valid_time t then Some t else None)"

text \<open>
  The difference of two instants can exceed \<open>2^53\<close> in absolute value (it stays below
  \<open>2^54\<close>), and the subtraction of doubles then rounds it: to the nearest number with a
  mantissa of 53 bits, a tie going to the even mantissa. \<open>round_double x\<close> is the double
  nearest to the integer \<open>x\<close> (for \<open>x\<close> below \<open>2^1024\<close> in absolute value); \<open>bitlen n\<close> is
  the number of binary digits of a positive \<open>n\<close>. For a difference \<open>y\<close> so rounded and the divisors
  used in the code (60000, 3600000, 86400000), \<open>Math.floor(y / b)\<close> is \<open>y div b\<close>: the
  quotient of doubles is off by less than the distance of \<open>y / b\<close> to the next integer.
  \<open>y % b\<close> is exact.
\<close>

function bitlen :: "int \<Rightarrow> nat" where
  "bitlen n = (if n \<le> 0 then 0 else Suc (bitlen (n div 2)))"
  by pat_completeness auto

termination
  by (relation "measure nat") auto

declare bitlen.simps [simp del]

text \<open>The double nearest to a non-negative integer, and to any integer.\<close>

definition round_magnitude :: "int \<Rightarrow> int" where
  "round_magnitude a =
     (let e = bitlen a - 53;
          q = a div 2 ^ e;
          r = a mod 2 ^ e
      in if 2 * r < 2 ^ e \<or> (2 * r = 2 ^ e \<and> even q) then q * 2 ^ e else (q + 1) * 2 ^ e)"

definition round_double :: "int \<Rightarrow> int" where
  "round_double x = (if x < 0 then - round_magnitude (- x) else round_magnitude x)"

subsection \<open>The contest row and the upstream payloads\<close>

text \<open>
  part_010 (\<open>src/lib/types.ts\<close>) gives the row of the \<open>contests\<close> table; part_004 extends it
  with \<open>status\<close> and the optional \<open>isBookmarked\<close> (an absent field is \<open>None\<close>).
  The field \<open>id\<close> is written \<open>idC\<close> here (\<open>id\<close> is HOL's identity function).
\<close>

datatype platform = Codeforces | CodeChef | LeetCode

record contest =
  idC :: string
  name :: string
  platform :: platform
  start_time :: int
  end_time :: int
  duration :: int
  url :: string
  solution_link :: "string option"
  status :: status
  isBookmarked :: "bool option"

text \<open>The bookmarks row of part_010; its \<open>id\<close> is written \<open>idB\<close>.\<close>

record bookmark =
  idB :: string
  user_id :: string
  contest_id :: string

text \<open>
  What an upstream request gives: \<open>Unavailable\<close> stands for everything that makes
  \<open>fetch(...).then(res => res.json())\<close> (or the access to the payload's lists) throw:
  a network error, a body that is not JSON, a payload of another shape.
\<close>

datatype 'a response = Unavailable | Payload 'a

text \<open>
  Codeforces: \<open>{status, result: [{id, name, startTimeSeconds, durationSeconds}]}\<close>.
  The code uses \<open>contest.id\<close> inside template literals only: \<open>cf_id\<close> is the text the
  literal prints for it (the decimal digits of a contest number below \<open>10^21\<close>). The same
  holds for \<open>contest_code\<close> and \<open>titleSlug\<close> below. A numeric field that is absent is
  \<open>None\<close>.
\<close>

record cf_raw =
  cf_id :: string
  cf_name :: string
  startTimeSeconds :: "int option"
  durationSeconds :: "int option"

record cf_data =
  cf_status :: string
  result :: "cf_raw list"

text \<open>
  CodeChef: three lists of \<open>{contest_code, contest_name, contest_start_date,
  contest_end_date}\<close>. The dates are strings; the fields here hold the instant the
  string denotes, \<open>None\<close> for a string that does not parse.
\<close>

record cc_raw =
  contest_code :: string
  contest_name :: string
  contest_start_date :: "int option"
  contest_end_date :: "int option"

record cc_data =
  future_contests :: "cc_raw list"
  present_contests :: "cc_raw list"
  past_contests :: "cc_raw list"

text \<open>LeetCode: a list of \<open>{titleSlug, title, startTime, duration}\<close>, \<open>duration\<close> optional
  (the two numeric fields are written \<open>lc_startTime\<close> and \<open>lc_duration\<close>).\<close>

record lc_raw =
  titleSlug :: string
  title :: string
  lc_startTime :: "int option"
  lc_duration :: "int option"

datatype exn = FetchError | ApiError string | RangeError | StoreError

subsection \<open>The three adapters of \<open>fetchAndSyncContests\<close>\<close>

text \<open>
  \<open>array.map(f)\<close> with an \<open>f\<close> that may throw: the entries are converted in order and the
  first exception leaves the \<open>map\<close>.
\<close>

fun map_throwing :: "('a \<Rightarrow> exn + 'b) \<Rightarrow> 'a list \<Rightarrow> exn + 'b list" where
  "map_throwing f [] = Inr []"
| "map_throwing f (x # xs) =
     (case f x of
        Inl e \<Rightarrow> Inl e
      | Inr y \<Rightarrow> (case map_throwing f xs of Inl e \<Rightarrow> Inl e | Inr ys \<Rightarrow> Inr (y # ys)))"

text \<open>
  part_004, lines 49-63: the object built for one Codeforces entry. Lines 53 and 54 call
  \<open>toISOString()\<close> on \<open>new Date(startTimeSeconds * 1000)\<close> and on
  \<open>new Date((startTimeSeconds + durationSeconds) * 1000)\<close>: an absent field or an instant
  outside the range of \<open>Date\<close> throws a \<open>RangeError\<close>. When both dates are valid the two
  fields are below \<open>2^53\<close> in absolute value, so the arithmetic is exact.
\<close>

definition cfContest :: "int \<Rightarrow> cf_raw \<Rightarrow> exn + contest" where
  "cfContest now c =
     (case new_Date (map_option (\<lambda>s. s * 1000) (startTimeSeconds c)) of
        None \<Rightarrow> Inl RangeError
      | Some contestStart \<Rightarrow>
          (case durationSeconds c of
             None \<Rightarrow> Inl RangeError
           | Some d \<Rightarrow>
               (case new_Date (map_option (\<lambda>s. (s + d) * 1000) (startTimeSeconds c)) of
                  None \<Rightarrow> Inl RangeError
                | Some contestEnd \<Rightarrow>
                    Inr \<lparr> idC = ''cf_'' @ cf_id c,
                          name = cf_name c,
                          platform = Codeforces,
                          start_time = contestStart,
                          end_time = contestEnd,
                          duration = d div 60,
                          url = ''https://codeforces.com/contest/'' @ cf_id c,
                          solution_link = None,
                          status = contest_status contestStart contestEnd now,
                          isBookmarked = None \<rparr>)))"

text \<open>
  part_004, lines 47-63: no \<open>try\<close> around the Codeforces request or its \<open>map\<close>; a failed
  request, a status other than \<open>'OK'\<close> and a \<open>RangeError\<close> of one entry all throw to the
  outer \<open>catch\<close>.
\<close>

definition cfContests :: "int \<Rightarrow> cf_data response \<Rightarrow> exn + contest list" where
  "cfContests now cfData =
     (case cfData of
        Unavailable \<Rightarrow> Inl FetchError
      | Payload d \<Rightarrow>
          if cf_status d \<noteq> ''OK'' then Inl (ApiError ''Codeforces API failed'')
          else map_throwing (cfContest now) (result d))"

text \<open>
  part_004, lines 69-83: one CodeChef entry. \<open>toISOString()\<close> of an Invalid Date throws a
  \<open>RangeError\<close>: \<open>None\<close>. The difference of the two instants is a difference of doubles.
\<close>

definition ccContest :: "int \<Rightarrow> cc_raw \<Rightarrow> contest option" where
  "ccContest now c =
     (case new_Date (contest_start_date c) of
        None \<Rightarrow> None
      | Some s \<Rightarrow>
          (case new_Date (contest_end_date c) of
             None \<Rightarrow> None
           | Some e \<Rightarrow>
               Some \<lparr> idC = ''cc_'' @ contest_code c,
                      name = contest_name c,
                      platform = CodeChef,
                      start_time = s,
                      end_time = e,
                      duration = round_double (e - s) div 60000,
                      url = ''https://www.codechef.com/'' @ contest_code c,
                      solution_link = None,
                      status = contest_status s e now,
                      isBookmarked = None \<rparr>))"

text \<open>
  part_004, lines 66-86: \<open>ccContests\<close> starts empty and stays empty when anything in the
  \<open>try\<close> throws (the request, or one entry's \<open>toISOString()\<close>).
\<close>

definition ccContests :: "int \<Rightarrow> cc_data response \<Rightarrow> contest list" where
  "ccContests now ccData =
     (case ccData of
        Unavailable \<Rightarrow> []
      | Payload d \<Rightarrow>
          (case those (map (ccContest now) (future_contests d @ present_contests d @ past_contests d)) of
             None \<Rightarrow> []
           | Some cs \<Rightarrow> cs))"

text \<open>
  part_004, lines 94-108: one LeetCode entry. \<open>contest.duration || 5400\<close> takes 5400 for an
  absent or zero duration; \<open>contest.duration ? ... : 90\<close> likewise. Lines 98 and 99 call
  \<open>toISOString()\<close> as the Codeforces adapter does.
\<close>

definition lc_seconds :: "int option \<Rightarrow> int" where
  "lc_seconds d = (case d of None \<Rightarrow> 5400 | Some x \<Rightarrow> if x = 0 then 5400 else x)"

definition lc_minutes :: "int option \<Rightarrow> int" where
  "lc_minutes d = (case d of None \<Rightarrow> 90 | Some x \<Rightarrow> if x = 0 then 90 else x div 60)"

definition lcContest :: "int \<Rightarrow> lc_raw \<Rightarrow> exn + contest" where
  "lcContest now c =
     (case new_Date (map_option (\<lambda>s. s * 1000) (lc_startTime c)) of
        None \<Rightarrow> Inl RangeError
      | Some contestStart \<Rightarrow>
          (case new_Date (map_option (\<lambda>s. (s + lc_seconds (lc_duration c)) * 1000) (lc_startTime c)) of
             None \<Rightarrow> Inl RangeError
           | Some contestEnd \<Rightarrow>
               Inr \<lparr> idC = ''lc_'' @ titleSlug c,
                     name = title c,
                     platform = LeetCode,
                     start_time = contestStart,
                     end_time = contestEnd,
                     duration = lc_minutes (lc_duration c),
                     url = ''https://leetcode.com/contest/'' @ titleSlug c,
                     solution_link = None,
                     status = contest_status contestStart contestEnd now,
                     isBookmarked = None \<rparr>))"

text \<open>
  part_004, lines 89-111: \<open>lcContests\<close> starts empty and stays empty when anything in the
  \<open>try\<close> throws (the request, or one entry's \<open>toISOString()\<close>).
\<close>

definition lcContests :: "int \<Rightarrow> lc_raw list response \<Rightarrow> contest list" where
  "lcContests now lcData =
     (case lcData of
        Unavailable \<Rightarrow> []
      | Payload d \<Rightarrow>
          (case map_throwing (lcContest now) d of Inl e \<Rightarrow> [] | Inr cs \<Rightarrow> cs))"

subsection \<open>The persisted store\<close>

text \<open>
  Modelled from the spec: the persisted store is an external service, not code of this
  repository. Section 6 of the specification gives its contract: row-level operations
  with upsert by unique key. \<open>upsert(rows, {onConflict: 'id'})\<close> inserts a row whose id
  is new and, for a row whose id exists, sets every column the request supplies to the
  supplied value. The requests of part_004 supply every column, \<open>solution_link\<close>
  included; the table is taken to have the columns the requests name (the row type of
  part_004 adds \<open>status\<close> to the one of part_010). The tables are lists of rows whose
  ids are unique; a row that is replaced keeps its place.
\<close>

record store =
  contests_tbl :: "contest list"
  bookmarks_tbl :: "bookmark list"

fun upsert_row :: "contest \<Rightarrow> contest list \<Rightarrow> contest list" where
  "upsert_row c [] = [c]"
| "upsert_row c (r # rs) = (if idC r = idC c then c # rs else r # upsert_row c rs)"

definition upsert_contests :: "contest list \<Rightarrow> contest list \<Rightarrow> contest list" where
  "upsert_contests batch tbl = foldl (\<lambda>t c. upsert_row c t) tbl batch"

fun upsert_bookmark :: "bookmark \<Rightarrow> bookmark list \<Rightarrow> bookmark list" where
  "upsert_bookmark b [] = [b]"
| "upsert_bookmark b (r # rs) = (if idB r = idB b then b # rs else r # upsert_bookmark b rs)"

text \<open>\<open>delete().eq('contest_id', id).eq('user_id', userId)\<close>.\<close>

definition delete_bookmark :: "string \<Rightarrow> string \<Rightarrow> bookmark list \<Rightarrow> bookmark list" where
  "delete_bookmark cid uid tbl = filter (\<lambda>b. \<not> (contest_id b = cid \<and> user_id b = uid)) tbl"

text \<open>
  \<open>insert({user_id, contest_id})\<close> supplies no id: the store assigns one (\<open>new_id\<close>).
  The schema of the bookmarks table is not in the repository, so whether the pair
  (user, contest) is declared unique is a parameter (\<open>unique_pair\<close>). A violated key makes
  the request return an error and leaves the table as it was.
\<close>

definition insert_bookmark ::
  "bool \<Rightarrow> string \<Rightarrow> string \<Rightarrow> string \<Rightarrow> bookmark list \<Rightarrow> exn + bookmark list" where
  "insert_bookmark unique_pair new_id uid cid tbl =
     (if new_id \<in> set (map idB tbl) then Inl StoreError
      else if unique_pair \<and> (uid, cid) \<in> set (map (\<lambda>b. (user_id b, contest_id b)) tbl)
        then Inl StoreError
      else Inr (tbl @ [\<lparr> idB = new_id, user_id = uid, contest_id = cid \<rparr>]))"

subsection \<open>\<open>fetchAndSyncContests\<close> (part_004, lines 40-163)\<close>

text \<open>
  The page's React state, and what one run reads from outside: the clock (read once at
  the start and once more in the \<open>catch\<close>), the three responses, and whether the store
  answers (a store that does not answer returns \<open>{data: null, error}\<close> from every
  request; the result of the upsert is not inspected).
\<close>

record page =
  contests :: "contest list"
  error :: "string option"
  loading :: bool

record world =
  clock :: int
  clock_catch :: int
  cf_response :: "cf_data response"
  cc_response :: "cc_data response"
  lc_response :: "lc_raw list response"
  store_ok :: bool

text \<open>part_004, lines 122-134 (and 146-158): the row shown, with its status recomputed.\<close>

definition withBookmark :: "int \<Rightarrow> bookmark list \<Rightarrow> contest \<Rightarrow> contest" where
  "withBookmark now bookmarks c =
     c\<lparr> isBookmarked := Some (idC c \<in> set (map contest_id bookmarks)),
        status := contest_status (start_time c) (end_time c) now \<rparr>"

text \<open>part_004, lines 137-159: the \<open>catch\<close>, showing the persisted rows when it can read them.\<close>

definition syncFailed :: "world \<Rightarrow> page \<times> store \<Rightarrow> page \<times> store" where
  "syncFailed w ps =
     (let pg = (fst ps)\<lparr> error := Some ''Failed to fetch or sync contests. Displaying cached data if available.'' \<rparr>;
          st = snd ps
      in if store_ok w
         then (pg\<lparr> contests := map (withBookmark (clock_catch w) (bookmarks_tbl st)) (contests_tbl st),
                   loading := False \<rparr>, st)
         else (pg\<lparr> loading := False \<rparr>, st))"

definition fetchAndSyncContests :: "world \<Rightarrow> page \<times> store \<Rightarrow> page \<times> store" where
  "fetchAndSyncContests w ps =
     (let pg = (fst ps)\<lparr> loading := True, error := None \<rparr>;
          st = snd ps
      in case cfContests (clock w) (cf_response w) of
           Inl e \<Rightarrow> syncFailed w (pg, st)
         | Inr cfs \<Rightarrow>
             (let allContests = cfs @ ccContests (clock w) (cc_response w) @ lcContests (clock w) (lc_response w)
              in if store_ok w
                 then (let st' = st\<lparr> contests_tbl := upsert_contests allContests (contests_tbl st) \<rparr>
                       in (pg\<lparr> contests := map (withBookmark (clock w) (bookmarks_tbl st')) (contests_tbl st'),
                               loading := False \<rparr>, st'))
                 else syncFailed w (pg, st)))"

subsection \<open>The bookmark toggles\<close>

datatype toast = ToastSuccess string | ToastError string

definition truthy :: "bool option \<Rightarrow> bool" where
  "truthy b = (b = Some True)"

text \<open>
  part_004, lines 235-256. \<open>user\<close> is \<open>user?.user?.id\<close>: the signed-in user's id, or
  \<open>None\<close>. The results of the store requests are not inspected.
\<close>

definition toggleBookmark :: "string option \<Rightarrow> string \<Rightarrow> page \<times> store \<Rightarrow> (page \<times> store) \<times> toast" where
  "toggleBookmark user i ps =
     (let userId = (case user of Some u \<Rightarrow> u | None \<Rightarrow> ''default_user'');
          updatedContests =
            map (\<lambda>c. if idC c = i then c\<lparr> isBookmarked := Some (\<not> truthy (isBookmarked c)) \<rparr> else c)
              (contests (fst ps));
          pg = (fst ps)\<lparr> contests := updatedContests \<rparr>;
          st = snd ps
      in if (case find (\<lambda>c. idC c = i) updatedContests of
               None \<Rightarrow> False | Some c \<Rightarrow> truthy (isBookmarked c))
         then ((pg, st\<lparr> bookmarks_tbl :=
                   upsert_bookmark \<lparr> idB = i @ ''_'' @ userId, user_id = userId, contest_id = i \<rparr>
                     (bookmarks_tbl st) \<rparr>),
               ToastSuccess ''Contest bookmarked!'')
         else ((pg, st\<lparr> bookmarks_tbl := delete_bookmark i userId (bookmarks_tbl st) \<rparr>),
               ToastSuccess ''Bookmark removed!''))"

text \<open>
  part_003, lines 68-100: the other revision of the page keeps the user's id and the set
  of bookmarked ids in its state. \<open>!userId\<close> holds for null and for the empty string.
\<close>

record page3 =
  userId :: "string option"
  bookmarkedIds :: "string set"

definition toggleBookmark3 ::
  "bool \<Rightarrow> string \<Rightarrow> string \<Rightarrow> page3 \<times> store \<Rightarrow> (page3 \<times> store) \<times> toast" where
  "toggleBookmark3 unique_pair new_id contestId ps =
     (let pg = fst ps; st = snd ps
      in case userId pg of
           None \<Rightarrow> (ps, ToastError ''Please sign in to bookmark contests'')
         | Some uid \<Rightarrow>
             if uid = [] then (ps, ToastError ''Please sign in to bookmark contests'')
             else if contestId \<in> bookmarkedIds pg
             then ((pg\<lparr> bookmarkedIds := bookmarkedIds pg - {contestId} \<rparr>,
                    st\<lparr> bookmarks_tbl := delete_bookmark contestId uid (bookmarks_tbl st) \<rparr>),
                   ToastSuccess ''Removed from bookmarks'')
             else (case insert_bookmark unique_pair new_id uid contestId (bookmarks_tbl st) of
                     Inl e \<Rightarrow> (ps, ToastError ''Failed to update bookmark'')
                   | Inr tbl \<Rightarrow>
                       ((pg\<lparr> bookmarkedIds := insert contestId (bookmarkedIds pg) \<rparr>,
                         st\<lparr> bookmarks_tbl := tbl \<rparr>),
                        ToastSuccess ''Added to bookmarks'')))"

text \<open>
  part_004, lines 279-301: \<open>handleAddSolution\<close>, the administrator's form that writes a
  solution link to the contest's row (for a store that answers).
\<close>

definition handleAddSolution :: "string \<Rightarrow> string \<Rightarrow> page \<times> store \<Rightarrow> (page \<times> store) \<times> toast" where
  "handleAddSolution selectedContest solutionLink ps =
     (if selectedContest = [] \<or> solutionLink = []
      then (ps, ToastError ''Please select a contest and provide a solution link'')
      else (((fst ps)\<lparr> contests :=
                 map (\<lambda>c. if idC c = selectedContest then c\<lparr> solution_link := Some solutionLink \<rparr> else c)
                   (contests (fst ps)) \<rparr>,
             (snd ps)\<lparr> contests_tbl :=
                 map (\<lambda>c. if idC c = selectedContest then c\<lparr> solution_link := Some solutionLink \<rparr> else c)
                   (contests_tbl (snd ps)) \<rparr>),
            ToastSuccess ''Solution link added successfully!''))"

subsection \<open>Time remaining\<close>

text \<open>
  Nine functions under \<open>src/\<close> render the time to a contest's start. Each reads the
  clock (\<open>now\<close>, a parameter here) and builds \<open>new Date(startTime)\<close> from the stored
  string (\<open>startTime\<close> is the instant the string denotes, \<open>None\<close> when it does not
  parse). On an Invalid Date \<open>diffMs\<close> is \<open>NaN\<close>: every comparison is false and the
  template literal prints \<open>NaN\<close>. The clock reading is a valid instant, so the difference
  stays below \<open>2^54\<close> in absolute value; it is the difference of two doubles.
\<close>

text \<open>\<open>src/pages/Contests.tsx\<close>, lines 114-123.\<close>

definition getTimeRemaining_Contests :: "int option \<Rightarrow> int \<Rightarrow> string" where
  "getTimeRemaining_Contests startTime now =
     (case new_Date startTime of
        None \<Rightarrow> ''NaNd NaNh NaNm''
      | Some start \<Rightarrow>
          (let diffMs = round_double (start - now)
           in if diffMs \<le> 0 then ''Ended''
              else (let days = diffMs div (1000 * 60 * 60 * 24);
                        hours = (diffMs mod (1000 * 60 * 60 * 24)) div (1000 * 60 * 60);
                        minutes = (diffMs mod (1000 * 60 * 60)) div (1000 * 60)
                    in show_int days @ ''d '' @ show_int hours @ ''h '' @ show_int minutes @ ''m'')))"

text \<open>part_003, lines 102-113 (the first page of the file).\<close>

definition getTimeRemaining_part003 :: "int option \<Rightarrow> int \<Rightarrow> string" where
  "getTimeRemaining_part003 startTime now =
     (case new_Date startTime of
        None \<Rightarrow> ''NaNd NaNh NaNm''
      | Some start \<Rightarrow>
          (let diffMs = round_double (start - now)
           in if diffMs \<le> 0 then ''Started''
              else (let days = diffMs div (1000 * 60 * 60 * 24);
                        hours = (diffMs mod (1000 * 60 * 60 * 24)) div (1000 * 60 * 60);
                        minutes = (diffMs mod (1000 * 60 * 60)) div (1000 * 60)
                    in show_int days @ ''d '' @ show_int hours @ ''h '' @ show_int minutes @ ''m'')))"

text \<open>part_003, lines 353-362 (the second page of the file).\<close>

definition getTimeRemaining_part003b :: "int option \<Rightarrow> int \<Rightarrow> string" where
  "getTimeRemaining_part003b startTime now =
     (case new_Date startTime of
        None \<Rightarrow> ''NaNd NaNh NaNm''
      | Some start \<Rightarrow>
          (let diffMs = round_double (start - now)
           in if diffMs \<le> 0 then ''Ended''
              else (let days = diffMs div (1000 * 60 * 60 * 24);
                        hours = (diffMs mod (1000 * 60 * 60 * 24)) div (1000 * 60 * 60);
                        minutes = (diffMs mod (1000 * 60 * 60)) div (1000 * 60)
                    in show_int days @ ''d '' @ show_int hours @ ''h '' @ show_int minutes @ ''m'')))"

text \<open>part_007, lines 28-37.\<close>

definition getTimeRemaining_part007 :: "int option \<Rightarrow> int \<Rightarrow> string" where
  "getTimeRemaining_part007 startTime now =
     (case new_Date startTime of
        None \<Rightarrow> ''NaNd NaNh NaNm''
      | Some start \<Rightarrow>
          (let diffMs = round_double (start - now)
           in if diffMs \<le> 0 then ''Ended''
              else (let days = diffMs div (1000 * 60 * 60 * 24);
                        hours = (diffMs mod (1000 * 60 * 60 * 24)) div (1000 * 60 * 60);
                        minutes = (diffMs mod (1000 * 60 * 60)) div (1000 * 60)
                    in show_int days @ ''d '' @ show_int hours @ ''h '' @ show_int minutes @ ''m'')))"

text \<open>\<open>src/pages/Dashboard.tsx\<close>, lines 61-72.\<close>

definition getTimeRemaining_Dashboard :: "int option \<Rightarrow> int \<Rightarrow> string" where
  "getTimeRemaining_Dashboard startTime now =
     (case new_Date startTime of
        None \<Rightarrow> ''NaNd NaNh NaNm''
      | Some start \<Rightarrow>
          (let diffMs = round_double (start - now)
           in if diffMs \<le> 0 then ''Started''
              else (let days = diffMs div (1000 * 60 * 60 * 24);
                        hours = (diffMs mod (1000 * 60 * 60 * 24)) div (1000 * 60 * 60);
                        minutes = (diffMs mod (1000 * 60 * 60)) div (1000 * 60)
                    in show_int days @ ''d '' @ show_int hours @ ''h '' @ show_int minutes @ ''m'')))"

text \<open>\<open>src/pages/Solutions.tsx\<close>, lines 265-275.\<close>

definition getTimeRemaining_Solutions :: "int option \<Rightarrow> int \<Rightarrow> string" where
  "getTimeRemaining_Solutions startTime now =
     (case new_Date startTime of
        None \<Rightarrow> ''NaNd NaNh NaNm''
      | Some start \<Rightarrow>
          (let diffMs = round_double (start - now)
           in if diffMs \<le> 0 then ''Started''
              else (let days = diffMs div (1000 * 60 * 60 * 24);
                        hours = (diffMs mod (1000 * 60 * 60 * 24)) div (1000 * 60 * 60);
                        minutes = (diffMs mod (1000 * 60 * 60)) div (1000 * 60)
                    in show_int days @ ''d '' @ show_int hours @ ''h '' @ show_int minutes @ ''m'')))"

text \<open>
  \<open>src/pages/Calendar.tsx\<close>, lines 119-128: the days are left out when there are none
  (\<open>NaN > 0\<close> is false).
\<close>

definition getTimeRemaining_Calendar :: "int option \<Rightarrow> int \<Rightarrow> string" where
  "getTimeRemaining_Calendar startTime now =
     (case new_Date startTime of
        None \<Rightarrow> ''NaNh NaNm''
      | Some start \<Rightarrow>
          (let diffMs = round_double (start - now)
           in if diffMs \<le> 0 then ''Ended''
              else (let days = diffMs div (1000 * 60 * 60 * 24);
                        hours = (diffMs mod (1000 * 60 * 60 * 24)) div (1000 * 60 * 60);
                        minutes = (diffMs mod (1000 * 60 * 60)) div (1000 * 60)
                    in if days > 0
                       then show_int days @ ''d '' @ show_int hours @ ''h '' @ show_int minutes @ ''m''
                       else show_int hours @ ''h '' @ show_int minutes @ ''m'')))"

text \<open>part_008, lines 71-82: \<open>getTimeStatus(startTime)\<close> of the bookmarks page.\<close>

definition getTimeStatus :: "int option \<Rightarrow> int \<Rightarrow> string" where
  "getTimeStatus startTime now =
     (case new_Date startTime of
        None \<Rightarrow> ''Ended''
      | Some start \<Rightarrow>
          (let diffMs = round_double (start - now)
           in if diffMs > 0
              then (let days = diffMs div (1000 * 60 * 60 * 24);
                        hours = (diffMs mod (1000 * 60 * 60 * 24)) div (1000 * 60 * 60)
                    in ''Starts in '' @ show_int days @ ''d '' @ show_int hours @ ''h'')
              else ''Ended''))"

text \<open>
  part_004, lines 265-277: \<open>getTimeRemaining(startTime, endTime)\<close>. \<open>later d now\<close> is the
  comparison \<open>d > now\<close> of a \<open>Date\<close> with the clock reading.
\<close>

definition later :: "int option \<Rightarrow> int \<Rightarrow> bool" where
  "later d now = (case d of None \<Rightarrow> False | Some t \<Rightarrow> t > now)"

definition getTimeRemaining_part004 :: "int option \<Rightarrow> int option \<Rightarrow> int \<Rightarrow> string" where
  "getTimeRemaining_part004 startTime endTime now =
     (let started = (if later (new_Date endTime) now then ''Ongoing'' else ''Ended'')
      in case new_Date startTime of
           None \<Rightarrow> started
         | Some start \<Rightarrow>
             if start > now
             then (let diffMs = round_double (start - now);
                       days = diffMs div (1000 * 60 * 60 * 24);
                       hours = (diffMs mod (1000 * 60 * 60 * 24)) div (1000 * 60 * 60);
                       minutes = (diffMs mod (1000 * 60 * 60)) div (1000 * 60)
                   in if days > 0
                      then show_int days @ ''d '' @ show_int hours @ ''h '' @ show_int minutes @ ''m''
                      else show_int hours @ ''h '' @ show_int minutes @ ''m'')
             else started)"

subsection \<open>Concrete inputs\<close>

text \<open>Payloads, pages and stores used to run the definitions above on explicit inputs.\<close>

definition ex_cf1 :: cf_raw where
  "ex_cf1 = \<lparr> cf_id = ''1'', cf_name = ''Round 1'', startTimeSeconds = Some 3600,
              durationSeconds = Some 7200 \<rparr>"

definition ex_cc1 :: cc_raw where
  "ex_cc1 = \<lparr> contest_code = ''START1'', contest_name = ''Starters 1'',
              contest_start_date = Some 0, contest_end_date = Some 7200000 \<rparr>"

definition ex_lc1 :: lc_raw where
  "ex_lc1 = \<lparr> titleSlug = ''weekly-1'', title = ''Weekly 1'', lc_startTime = Some 0, lc_duration = None \<rparr>"

definition ex_cf_ok :: "cf_data response" where
  "ex_cf_ok = Payload \<lparr> cf_status = ''OK'', result = [ex_cf1] \<rparr>"

definition ex_cc_ok :: "cc_data response" where
  "ex_cc_ok = Payload \<lparr> future_contests = [ex_cc1], present_contests = [], past_contests = [] \<rparr>"

definition ex_lc_ok :: "lc_raw list response" where
  "ex_lc_ok = Payload [ex_lc1]"

definition ex_page :: page where
  "ex_page = \<lparr> contests = [], error = None, loading = False \<rparr>"

definition ex_store_empty :: store where
  "ex_store_empty = \<lparr> contests_tbl = [], bookmarks_tbl = [] \<rparr>"

text \<open>A run in which only Codeforces answers, and one in which only Codeforces fails.\<close>

definition ex_world_cf_only :: world where
  "ex_world_cf_only =
     \<lparr> clock = 0, clock_catch = 0, cf_response = ex_cf_ok, cc_response = Unavailable,
       lc_response = Unavailable, store_ok = True \<rparr>"

definition ex_world_cf_down :: world where
  "ex_world_cf_down =
     \<lparr> clock = 0, clock_catch = 0, cf_response = Unavailable, cc_response = ex_cc_ok,
       lc_response = ex_lc_ok, store_ok = True \<rparr>"

definition ex_world_cc_down :: world where
  "ex_world_cc_down =
     \<lparr> clock = 0, clock_catch = 0, cf_response = ex_cf_ok, cc_response = Unavailable,
       lc_response = ex_lc_ok, store_ok = True \<rparr>"

text \<open>
  A first run stores the Codeforces contest 1; the administrator then adds a solution
  link to it; the timer (part_004, line 227) runs the synchronisation again.
\<close>

definition ex_first_sync :: "page \<times> store" where
  "ex_first_sync = fetchAndSyncContests ex_world_cf_only (ex_page, ex_store_empty)"

definition ex_link_added :: "page \<times> store" where
  "ex_link_added = fst (handleAddSolution ''cf_1'' ''https://video'' ex_first_sync)"

definition ex_second_sync :: "page \<times> store" where
  "ex_second_sync = fetchAndSyncContests ex_world_cf_only ex_link_added"

text \<open>
  The row of contest \<open>cf_1\<close> as the Codeforces adapter builds it at clock reading 0;
  the page of part_004 showing it, not bookmarked, with nobody signed in;
  and the page of part_003 of a signed-in user whose set of bookmarked ids is empty
  while the store already holds that user's bookmark of \<open>cf_1\<close> (saved from another
  session).
\<close>

definition ex_contest_cf1 :: contest where
  "ex_contest_cf1 =
     \<lparr> idC = ''cf_1'', name = ''Round 1'', platform = Codeforces, start_time = 3600000,
       end_time = 10800000, duration = 120, url = ''https://codeforces.com/contest/1'',
       solution_link = None, status = Upcoming, isBookmarked = None \<rparr>"

definition ex_page_cf1 :: page where
  "ex_page_cf1 = \<lparr> contests = [ex_contest_cf1\<lparr> isBookmarked := Some False \<rparr>],
                    error = None, loading = False \<rparr>"

definition ex_bookmark :: bookmark where
  "ex_bookmark = \<lparr> idB = ''b1'', user_id = ''u1'', contest_id = ''cf_1'' \<rparr>"

definition ex_store_bookmarked :: store where
  "ex_store_bookmarked = \<lparr> contests_tbl = [ex_contest_cf1], bookmarks_tbl = [ex_bookmark] \<rparr>"

definition ex_page3_stale :: page3 where
  "ex_page3_stale = \<lparr> userId = Some ''u1'', bookmarkedIds = {} \<rparr>"

definition ex_page3_signed_out :: page3 where
  "ex_page3_signed_out = \<lparr> userId = None, bookmarkedIds = {} \<rparr>"

text \<open>
  Upstream entries whose end lies before their start: a Codeforces entry with a negative
  duration, a CodeChef entry whose end date precedes its start date, a LeetCode entry
  with a negative duration; and a run that receives all three.
\<close>

definition ex_cf_backwards :: cf_raw where
  "ex_cf_backwards = \<lparr> cf_id = ''2'', cf_name = ''Round 2'', startTimeSeconds = Some 7200,
                       durationSeconds = Some (- 3600) \<rparr>"

definition ex_cc_backwards :: cc_raw where
  "ex_cc_backwards = \<lparr> contest_code = ''START2'', contest_name = ''Starters 2'',
                       contest_start_date = Some 7200000, contest_end_date = Some 0 \<rparr>"

definition ex_lc_backwards :: lc_raw where
  "ex_lc_backwards = \<lparr> titleSlug = ''weekly-2'', title = ''Weekly 2'', lc_startTime = Some 7200,
                       lc_duration = Some (- 3600) \<rparr>"

definition ex_world_backwards :: world where
  "ex_world_backwards =
     \<lparr> clock = 0, clock_catch = 0,
       cf_response = Payload \<lparr> cf_status = ''OK'', result = [ex_cf_backwards] \<rparr>,
       cc_response = Payload \<lparr> future_contests = [ex_cc_backwards], present_contests = [],
                               past_contests = [] \<rparr>,
       lc_response = Payload [ex_lc_backwards],
       store_ok = True \<rparr>"

text \<open>
  A Codeforces entry and a LeetCode entry whose start lies one second beyond the range
  of \<open>Date\<close>, a Codeforces entry without a start, and runs that receive them beside
  well-formed entries: the Codeforces answer has status \<open>OK\<close> in both.
\<close>

definition ex_cf_beyond :: cf_raw where
  "ex_cf_beyond = \<lparr> cf_id = ''3'', cf_name = ''Round 3'', startTimeSeconds = Some 8640000000001,
                    durationSeconds = Some (- 1) \<rparr>"

definition ex_cf_no_start :: cf_raw where
  "ex_cf_no_start = \<lparr> cf_id = ''4'', cf_name = ''Round 4'', startTimeSeconds = None,
                      durationSeconds = Some 7200 \<rparr>"

definition ex_lc_beyond :: lc_raw where
  "ex_lc_beyond = \<lparr> titleSlug = ''weekly-3'', title = ''Weekly 3'', lc_startTime = Some 8640000000001,
                    lc_duration = Some (- 1) \<rparr>"

definition ex_world_cf_beyond :: world where
  "ex_world_cf_beyond =
     \<lparr> clock = 0, clock_catch = 0,
       cf_response = Payload \<lparr> cf_status = ''OK'', result = [ex_cf1, ex_cf_beyond] \<rparr>,
       cc_response = ex_cc_ok, lc_response = ex_lc_ok, store_ok = True \<rparr>"

definition ex_world_lc_beyond :: world where
  "ex_world_lc_beyond =
     \<lparr> clock = 0, clock_catch = 0, cf_response = ex_cf_ok, cc_response = ex_cc_ok,
       lc_response = Payload [ex_lc1, ex_lc_beyond], store_ok = True \<rparr>"

subsection \<open>The identifier scheme in the specification's words\<close>

text \<open>
  Section 4.2 of the specification: the stable id is \<open>platform:platform_native_id\<close>.
  \<open>platform_tag\<close> gives the values of the row's \<open>platform\<close> column (part_010).
\<close>

fun platform_tag :: "platform \<Rightarrow> string" where
  "platform_tag Codeforces = ''Codeforces''"
| "platform_tag CodeChef = ''CodeChef''"
| "platform_tag LeetCode = ''LeetCode''"

definition spec_id :: "string \<Rightarrow> string \<Rightarrow> string" where
  "spec_id tag native_id = tag @ '':'' @ native_id"

subsection \<open>Entries whose dates are valid\<close>

text \<open>
  The entries on which lines 53-54 and 98-99 of part_004 do not throw: both fields are
  present (for LeetCode the duration may be absent) and the start and end instants lie
  within the range of \<open>Date\<close>.
\<close>

definition cf_dates_valid :: "cf_raw \<Rightarrow> bool" where
  "cf_dates_valid c =
     (case startTimeSeconds c of
        None \<Rightarrow> False
      | Some s \<Rightarrow>
          (case durationSeconds c of
             None \<Rightarrow> False
           | Some d \<Rightarrow> valid_time (s * 1000) \<and> valid_time ((s + d) * 1000)))"

definition lc_dates_valid :: "lc_raw \<Rightarrow> bool" where
  "lc_dates_valid c =
     (case lc_startTime c of
        None \<Rightarrow> False
      | Some s \<Rightarrow> valid_time (s * 1000) \<and> valid_time ((s + lc_seconds (lc_duration c)) * 1000))"

section \<open>Theorems\<close>

subsection \<open>Rounding to a double\<close>

text \<open>
  An integer up to \<open>2^53\<close> in absolute value is its own double, and rounding keeps the
  sign.
\<close>

lemma bitlen_0: "n \<le> 0 \<Longrightarrow> bitlen n = 0"
  by (subst bitlen.simps) simp

lemma bitlen_pos: "0 < n \<Longrightarrow> bitlen n = Suc (bitlen (n div 2))"
  by (subst bitlen.simps) simp

lemma bitlen_le: "n < 2 ^ k \<Longrightarrow> bitlen n \<le> k"
proof (induction k arbitrary: n)
  case 0
  then show ?case by (simp add: bitlen_0)
next
  case (Suc k)
  show ?case
  proof (cases "n \<le> 0")
    case True
    then show ?thesis by (simp add: bitlen_0)
  next
    case False
    from Suc.prems have "n div 2 < 2 ^ k" by simp
    from Suc.IH [OF this] have "bitlen (n div 2) \<le> k" .
    moreover from False have "bitlen n = Suc (bitlen (n div 2))" by (intro bitlen_pos) simp
    ultimately show ?thesis by simp
  qed
qed

lemma bitlen_lower: "0 < n \<Longrightarrow> 2 ^ (bitlen n - 1) \<le> n"
proof (induction n rule: bitlen.induct)
  case (1 n)
  from 1(2) have bn: "bitlen n = Suc (bitlen (n div 2))" by (rule bitlen_pos)
  show ?case
  proof (cases "n div 2 \<le> 0")
    case True
    then have "bitlen (n div 2) = 0" by (rule bitlen_0)
    with bn 1(2) show ?thesis by simp
  next
    case False
    then have p: "0 < n div 2" by simp
    from 1(2) have "\<not> n \<le> 0" by simp
    from 1(1) [OF this p] have h: "2 ^ (bitlen (n div 2) - 1) \<le> n div 2" .
    from p have "bitlen (n div 2) = Suc (bitlen (n div 2 div 2))" by (rule bitlen_pos)
    with bn have "bitlen n - 1 = Suc (bitlen (n div 2) - 1)" by simp
    then have "(2::int) ^ (bitlen n - 1) = 2 * 2 ^ (bitlen (n div 2) - 1)" by simp
    also from h have "\<dots> \<le> 2 * (n div 2)" by simp
    also have "\<dots> \<le> n" by simp
    finally show ?thesis .
  qed
qed

lemma round_magnitude_exact:
  assumes "a \<le> 9007199254740992"
  shows "round_magnitude a = a"
proof (cases "a = 9007199254740992")
  case True
  show ?thesis unfolding True by code_simp
next
  case False
  with assms have "a < 2 ^ 53" by simp
  from bitlen_le [OF this] show ?thesis by (simp add: round_magnitude_def)
qed

lemma round_magnitude_pos:
  assumes p: "0 < a"
  shows "0 < round_magnitude a"
proof -
  let ?e = "bitlen a - 53"
  have "(2::int) ^ ?e \<le> 2 ^ (bitlen a - 1)" by (rule power_increasing) simp_all
  also note bitlen_lower [OF p]
  finally have "2 ^ ?e \<le> a" .
  then have q: "0 < a div 2 ^ ?e" by (simp add: pos_imp_zdiv_pos_iff)
  have e: "(0::int) < 2 ^ ?e" by simp
  from q e have 1: "0 < a div 2 ^ ?e * 2 ^ ?e" by (rule mult_pos_pos)
  from q have "0 < a div 2 ^ ?e + 1" by simp
  from this e have 2: "0 < (a div 2 ^ ?e + 1) * 2 ^ ?e" by (rule mult_pos_pos)
  show ?thesis unfolding round_magnitude_def Let_def using 1 2 by (simp only: split: if_split) blast
qed

lemma round_magnitude_0: "round_magnitude 0 = 0"
  by code_simp

lemma round_double_exact:
  "- 9007199254740992 \<le> x \<Longrightarrow> x \<le> 9007199254740992 \<Longrightarrow> round_double x = x"
  by (simp add: round_double_def round_magnitude_exact)

lemma round_double_pos: "0 < round_double x \<longleftrightarrow> 0 < x"
proof (cases "x < 0")
  case True
  then have "0 < round_magnitude (- x)" by (intro round_magnitude_pos) simp
  with True show ?thesis by (simp add: round_double_def)
next
  case False
  show ?thesis
  proof (cases "x = 0")
    case True
    then show ?thesis by (simp add: round_double_def round_magnitude_0)
  next
    case nz: False
    with False have "0 < x" by simp
    with round_magnitude_pos [OF this] show ?thesis by (simp add: round_double_def)
  qed
qed

lemma round_double_neg: "round_double x < 0 \<longleftrightarrow> x < 0"
proof (cases "x < 0")
  case True
  then have "0 < round_magnitude (- x)" by (intro round_magnitude_pos) simp
  with True show ?thesis by (simp add: round_double_def)
next
  case False
  show ?thesis
  proof (cases "x = 0")
    case True
    then show ?thesis by (simp add: round_double_def round_magnitude_0)
  next
    case nz: False
    with False have "0 < x" by simp
    with round_magnitude_pos [OF this] show ?thesis by (simp add: round_double_def)
  qed
qed

lemma round_double_nonpos: "round_double x \<le> 0 \<longleftrightarrow> x \<le> 0"
  using round_double_pos [of x] by linarith

subsection \<open>The upsert keeps ids unique and takes matching rows from the batch\<close>

lemma upsert_row_ids: "idC ` set (upsert_row c tbl) = insert (idC c) (idC ` set tbl)"
  by (induction tbl) auto

lemma upsert_contests_ids:
  "idC ` set (upsert_contests batch tbl) = idC ` set tbl \<union> idC ` set batch"
  unfolding upsert_contests_def
proof (induction batch arbitrary: tbl)
  case Nil
  show ?case by simp
next
  case (Cons c batch)
  have "idC ` set (foldl (\<lambda>t c. upsert_row c t) (upsert_row c tbl) batch)
        = idC ` set (upsert_row c tbl) \<union> idC ` set batch"
    by (rule Cons.IH)
  then show ?case by (simp add: upsert_row_ids)
qed

lemma upsert_row_distinct:
  "distinct (map idC tbl) \<Longrightarrow> distinct (map idC (upsert_row c tbl))"
proof (induction tbl)
  case Nil
  show ?case by simp
next
  case (Cons r rs)
  from Cons.prems have fresh: "idC r \<notin> idC ` set rs" and d: "distinct (map idC rs)"
    by simp_all
  show ?case
  proof (cases "idC r = idC c")
    case True
    from fresh have "idC c \<notin> idC ` set rs" unfolding True .
    with d True show ?thesis by simp
  next
    case False
    with fresh d Cons.IH show ?thesis by (simp add: upsert_row_ids)
  qed
qed

lemma upsert_row_mem:
  "distinct (map idC tbl) \<Longrightarrow> x \<in> set (upsert_row c tbl) \<Longrightarrow>
     x = c \<or> (x \<in> set tbl \<and> idC x \<noteq> idC c)"
proof (induction tbl)
  case Nil
  then show ?case by simp
next
  case (Cons r rs)
  from Cons.prems(1) have fresh: "idC r \<notin> idC ` set rs" and d: "distinct (map idC rs)"
    by simp_all
  show ?case
  proof (cases "idC r = idC c")
    case True
    from Cons.prems(2) True have x: "x = c \<or> x \<in> set rs" by simp
    from fresh have "idC c \<notin> idC ` set rs" unfolding True .
    then have "\<And>y. y \<in> set rs \<Longrightarrow> idC y \<noteq> idC c" by (rule contrapos_nn) (simp add: image_iff, metis)
    with x show ?thesis by auto
  next
    case False
    from Cons.prems(2) False have "x = r \<or> x \<in> set (upsert_row c rs)" by simp
    then show ?thesis
    proof
      assume "x = r"
      with False show ?thesis by simp
    next
      assume "x \<in> set (upsert_row c rs)"
      from Cons.IH [OF d this] show ?thesis by auto
    qed
  qed
qed


lemma upsert_contests_origin:
  "distinct (map idC tbl) \<Longrightarrow> r \<in> set (upsert_contests batch tbl) \<Longrightarrow>
     r \<in> set batch \<or> (r \<in> set tbl \<and> idC r \<notin> idC ` set batch)"
  unfolding upsert_contests_def
proof (induction batch arbitrary: tbl)
  case Nil
  then show ?case by simp
next
  case (Cons c batch)
  from Cons.prems(1) have d: "distinct (map idC (upsert_row c tbl))"
    by (rule upsert_row_distinct)
  from Cons.prems(2) have "r \<in> set (foldl (\<lambda>t c. upsert_row c t) (upsert_row c tbl) batch)"
    by simp
  from Cons.IH [OF d this]
  have "r \<in> set batch \<or> (r \<in> set (upsert_row c tbl) \<and> idC r \<notin> idC ` set batch)" .
  then show ?case
  proof
    assume "r \<in> set batch"
    then show ?thesis by simp
  next
    assume a: "r \<in> set (upsert_row c tbl) \<and> idC r \<notin> idC ` set batch"
    with upsert_row_mem [OF Cons.prems(1), of r c]
    have "r = c \<or> (r \<in> set tbl \<and> idC r \<noteq> idC c)" by simp
    with a show ?thesis by auto
  qed
qed

subsection \<open>Status classification\<close>

text \<open>
  C3. For a contest with \<open>end_time \<ge> start_time\<close> and any instant \<open>now\<close>, the status is
  upcoming exactly when \<open>now < start_time\<close>, current (the spec's "ongoing") exactly when
  \<open>start_time \<le> now < end_time\<close>, and past exactly when \<open>now \<ge> end_time\<close>; the boundary
  instant \<open>now = start_time\<close> is current (or past, for a contest of length zero) and
  \<open>now = end_time\<close> is past. The three conditions exclude each other and one always holds.
\<close>

theorem contest_status_classification:
  assumes "contestStart \<le> contestEnd"
  shows "(contest_status contestStart contestEnd now = Upcoming \<longleftrightarrow> now < contestStart)
       \<and> (contest_status contestStart contestEnd now = Current \<longleftrightarrow> contestStart \<le> now \<and> now < contestEnd)
       \<and> (contest_status contestStart contestEnd now = Past \<longleftrightarrow> contestEnd \<le> now)
       \<and> contest_status contestStart contestEnd contestEnd = Past
       \<and> contest_status contestStart contestEnd contestStart \<noteq> Upcoming"
  using assms by (auto simp: contest_status_def)

theorem contest_status_classification_witness:
  "(100::int) \<le> 200
   \<and> contest_status 100 200 99 = Upcoming
   \<and> contest_status 100 200 100 = Current
   \<and> contest_status 100 200 199 = Current
   \<and> contest_status 100 200 200 = Past"
proof -
  have h: "(100::int) \<le> 200" by simp
  from contest_status_classification [OF h, of 99]
       contest_status_classification [OF h, of 100]
       contest_status_classification [OF h, of 199]
       contest_status_classification [OF h, of 200]
  show ?thesis by simp
qed

text \<open>
  C4. For a fixed contest with \<open>end_time \<ge> start_time\<close> and instants \<open>now1 \<le> now2\<close>, the
  status at \<open>now2\<close> is never earlier in the order upcoming < current < past than the
  status at \<open>now1\<close>.
\<close>

theorem contest_status_monotonic:
  assumes "contestStart \<le> contestEnd" and "now1 \<le> now2"
  shows "status_rank (contest_status contestStart contestEnd now1)
          \<le> status_rank (contest_status contestStart contestEnd now2)"
  using assms by (auto simp: contest_status_def)

theorem contest_status_monotonic_witness:
  "(100::int) \<le> 200 \<and> (150::int) \<le> 250
   \<and> contest_status 100 200 150 = Current
   \<and> contest_status 100 200 250 = Past
   \<and> status_rank (contest_status 100 200 150) \<le> status_rank (contest_status 100 200 250)"
proof -
  have h1: "(100::int) \<le> 200" and h2: "(150::int) \<le> 250" by simp_all
  from contest_status_monotonic [OF h1 h2]
  show ?thesis by (simp add: contest_status_def)
qed

text \<open>
  The rows a run shows carry the status recomputed from their instants and the clock
  reading of that run, not the status stored with the row.
\<close>

lemma withBookmark_status:
  "status (withBookmark n bs c) = contest_status (start_time c) (end_time c) n
   \<and> start_time (withBookmark n bs c) = start_time c
   \<and> end_time (withBookmark n bs c) = end_time c"
  by (simp add: withBookmark_def)

lemma shown_status_is_recomputed:
  assumes "store_ok w" and "c \<in> set (contests (fst (fetchAndSyncContests w ps)))"
  shows "status c = contest_status (start_time c) (end_time c) (clock w)
       \<or> status c = contest_status (start_time c) (end_time c) (clock_catch w)"
proof (cases "cfContests (clock w) (cf_response w)")
  case (Inl e)
  with assms have "c \<in> withBookmark (clock_catch w) (bookmarks_tbl (snd ps)) ` set (contests_tbl (snd ps))"
    by (simp add: fetchAndSyncContests_def syncFailed_def Let_def)
  then obtain r where "c = withBookmark (clock_catch w) (bookmarks_tbl (snd ps)) r" by blast
  then show ?thesis by (simp add: withBookmark_status)
next
  case (Inr cfs)
  with assms obtain tbl where "c \<in> withBookmark (clock w) (bookmarks_tbl (snd ps)) ` set tbl"
    by (simp add: fetchAndSyncContests_def Let_def)
  then obtain r where "c = withBookmark (clock w) (bookmarks_tbl (snd ps)) r" by blast
  then show ?thesis by (simp add: withBookmark_status)
qed

subsection \<open>Theme\<close>

text \<open>
  C10. The theme of \<open>useTheme\<close> is one of light and dark: a stored value that is neither
  \<open>'light'\<close> nor \<open>'dark'\<close> (or no stored value) initialises it to light, a stored
  \<open>'light'\<close> or \<open>'dark'\<close> is taken as it is; toggling twice gives the theme back and
  toggling once never does.
\<close>

theorem theme_light_or_dark_toggle_involution:
  shows "(initTheme saved = Light \<or> initTheme saved = Dark)
       \<and> (saved \<noteq> Some ''light'' \<and> saved \<noteq> Some ''dark'' \<longrightarrow> initTheme saved = Light)
       \<and> initTheme (Some (theme_name t)) = t
       \<and> (toggleTheme t = Light \<or> toggleTheme t = Dark)
       \<and> toggleTheme (toggleTheme t) = t
       \<and> toggleTheme t \<noteq> t"
  by (cases t) (auto simp: initTheme_def toggleTheme_def)

theorem theme_light_or_dark_toggle_involution_witness:
  "initTheme (Some ''blue'') = Light
   \<and> initTheme None = Light
   \<and> toggleTheme (toggleTheme Dark) = Dark
   \<and> toggleTheme Dark = Light"
proof -
  from theme_light_or_dark_toggle_involution [of "Some ''blue''" Dark]
       theme_light_or_dark_toggle_involution [of None Dark]
  show ?thesis by (simp add: toggleTheme_def)
qed

text \<open>
  The effect of the hook writes the theme back: the stored value initialises the same
  theme again, and the root element carries the class of the theme and not the other.
\<close>

lemma theme_persisted_and_read_back:
  "initTheme (storedTheme (applyTheme t env)) = t
   \<and> theme_name t \<in> set (classList (applyTheme t env))
   \<and> theme_name (toggleTheme t) \<notin> set (classList (applyTheme t env))"
  by (cases t) (auto simp: initTheme_def applyTheme_def toggleTheme_def)

subsection \<open>Whole days, hours and minutes by floor division\<close>

lemma truncated_decomposition:
  fixes diffMs :: int
  assumes "0 < diffMs"
  defines "days \<equiv> diffMs div (1000 * 60 * 60 * 24)"
    and "hours \<equiv> (diffMs mod (1000 * 60 * 60 * 24)) div (1000 * 60 * 60)"
    and "minutes \<equiv> (diffMs mod (1000 * 60 * 60)) div (1000 * 60)"
  shows "0 \<le> days \<and> 0 \<le> hours \<and> hours < 24 \<and> 0 \<le> minutes \<and> minutes < 60
       \<and> days * 86400000 + hours * 3600000 + minutes * 60000 \<le> diffMs
       \<and> diffMs < days * 86400000 + hours * 3600000 + minutes * 60000 + 60000"
proof -
  define r1 where "r1 = diffMs mod 86400000"
  define r2 where "r2 = diffMs mod 3600000"
  define r3 where "r3 = diffMs mod 60000"
  have e1: "diffMs = days * 86400000 + r1" and b1: "0 \<le> r1" "r1 < 86400000"
    unfolding days_def r1_def by simp_all
  have h12: "r1 mod 3600000 = r2" unfolding r1_def r2_def
    by (simp add: mod_mod_cancel)
  have hh: "hours = r1 div 3600000" unfolding hours_def r1_def by simp
  have e2: "r1 = hours * 3600000 + r2"
    using div_mult_mod_eq [of r1 3600000] unfolding hh h12 by simp
  have b2: "0 \<le> r2" "r2 < 3600000" unfolding r2_def by simp_all
  have h23: "r2 mod 60000 = r3" unfolding r2_def r3_def
    by (simp add: mod_mod_cancel)
  have hm: "minutes = r2 div 60000" unfolding minutes_def r2_def by simp
  have e3: "r2 = minutes * 60000 + r3"
    using div_mult_mod_eq [of r2 60000] unfolding hm h23 by simp
  have b3: "0 \<le> r3" "r3 < 60000" unfolding r3_def by simp_all
  from assms(1) have "0 \<le> days" unfolding days_def by simp
  moreover have "0 \<le> hours" unfolding hours_def by simp
  moreover have "0 \<le> minutes" unfolding minutes_def by simp
  moreover from e2 b1 b2 have "hours < 24" by linarith
  moreover from e3 b2 b3 have "minutes < 60" by linarith
  ultimately show ?thesis using e1 e2 e3 b3 by linarith
qed

subsection \<open>The adapters never deliver a solution link\<close>

lemma map_throwing_mem:
  "map_throwing f xs = Inr ys \<Longrightarrow> y \<in> set ys \<Longrightarrow> \<exists>x \<in> set xs. f x = Inr y"
proof (induction xs arbitrary: ys)
  case Nil
  then show ?case by simp
next
  case (Cons x xs)
  from Cons.prems(1) obtain z zs where fx: "f x = Inr z" and rest: "map_throwing f xs = Inr zs"
    and ys: "ys = z # zs"
    by (auto split: sum.splits)
  from Cons.prems(2) ys have "y = z \<or> y \<in> set zs" by simp
  then show ?case
  proof
    assume "y = z"
    with fx show ?thesis by simp
  next
    assume "y \<in> set zs"
    from Cons.IH [OF rest this] show ?thesis by auto
  qed
qed

lemma map_throwing_Inl:
  "x \<in> set xs \<Longrightarrow> f x = Inl e \<Longrightarrow> \<exists>e'. map_throwing f xs = Inl e'"
  by (induction xs) (auto split: sum.splits)

lemma map_throwing_Inr:
  "(\<And>x. x \<in> set xs \<Longrightarrow> \<exists>y. f x = Inr y) \<Longrightarrow> \<exists>ys. map_throwing f xs = Inr ys \<and> length ys = length xs"
proof (induction xs)
  case Nil
  show ?case by simp
next
  case (Cons x xs)
  from Cons.prems obtain y where y: "f x = Inr y" by auto
  from Cons.IH Cons.prems obtain ys where "map_throwing f xs = Inr ys" "length ys = length xs" by auto
  with y show ?case by simp
qed

lemma cfContest_link: "cfContest n c = Inr k \<Longrightarrow> solution_link k = None"
  by (auto simp: cfContest_def split: option.splits)

lemma lcContest_link: "lcContest n c = Inr k \<Longrightarrow> solution_link k = None"
  by (auto simp: lcContest_def split: option.splits)

lemma ccContest_link: "ccContest n c = Some k \<Longrightarrow> solution_link k = None"
  by (auto simp: ccContest_def split: option.splits)

lemma those_Some_mem:
  "those xs = Some ys \<Longrightarrow> y \<in> set ys \<Longrightarrow> Some y \<in> set xs"
  by (induction xs arbitrary: ys) (auto split: option.splits)

lemma ccContests_mem:
  "k \<in> set (ccContests n r) \<Longrightarrow> \<exists>c. ccContest n c = Some k"
proof (cases r)
  case Unavailable
  assume "k \<in> set (ccContests n r)"
  with Unavailable show ?thesis by (simp add: ccContests_def)
next
  case (Payload d)
  assume k: "k \<in> set (ccContests n r)"
  let ?xs = "map (ccContest n) (future_contests d @ present_contests d @ past_contests d)"
  show ?thesis
  proof (cases "those ?xs")
    case None
    with Payload k show ?thesis by (simp add: ccContests_def)
  next
    case (Some cs)
    with Payload k have "k \<in> set cs" by (simp add: ccContests_def)
    from those_Some_mem [OF Some this] have "Some k \<in> set ?xs" .
    then obtain c where "ccContest n c = Some k" by (auto simp del: map_append)
    then show ?thesis ..
  qed
qed

lemma ccContests_link: "k \<in> set (ccContests n r) \<Longrightarrow> solution_link k = None"
  using ccContests_mem ccContest_link by blast

lemma lcContests_link: "k \<in> set (lcContests n r) \<Longrightarrow> solution_link k = None"
proof (cases r)
  case Unavailable
  assume "k \<in> set (lcContests n r)"
  with Unavailable show ?thesis by (simp add: lcContests_def)
next
  case (Payload d)
  assume k: "k \<in> set (lcContests n r)"
  show ?thesis
  proof (cases "map_throwing (lcContest n) d")
    case (Inl e)
    with Payload k show ?thesis by (simp add: lcContests_def)
  next
    case (Inr cs)
    with Payload k have "k \<in> set cs" by (simp add: lcContests_def)
    from map_throwing_mem [OF Inr this] show ?thesis using lcContest_link by blast
  qed
qed

lemma cfContests_link: "cfContests n r = Inr cfs \<Longrightarrow> k \<in> set cfs \<Longrightarrow> solution_link k = None"
proof (cases r)
  case Unavailable
  assume "cfContests n r = Inr cfs"
  with Unavailable show ?thesis by (simp add: cfContests_def)
next
  case (Payload d)
  assume a: "cfContests n r = Inr cfs" and k: "k \<in> set cfs"
  from a Payload have "map_throwing (cfContest n) (result d) = Inr cfs"
    by (simp add: cfContests_def split: if_splits)
  from map_throwing_mem [OF this k] show ?thesis using cfContest_link by blast
qed

subsection \<open>When the adapters deliver\<close>

lemma cfContest_Inr_iff: "(\<exists>k. cfContest n c = Inr k) \<longleftrightarrow> cf_dates_valid c"
  by (auto simp: cfContest_def cf_dates_valid_def new_Date_def split: option.splits)

lemma cfContest_Inl: "cfContest n c = Inl e \<Longrightarrow> e = RangeError \<and> \<not> cf_dates_valid c"
  by (auto simp: cfContest_def cf_dates_valid_def new_Date_def split: option.splits if_splits)

lemma lcContest_Inr_iff: "(\<exists>k. lcContest n c = Inr k) \<longleftrightarrow> lc_dates_valid c"
  by (auto simp: lcContest_def lc_dates_valid_def new_Date_def split: option.splits)

lemma map_throwing_Inr_iff:
  "(\<exists>ys. map_throwing f xs = Inr ys) \<longleftrightarrow> list_all (\<lambda>x. \<exists>y. f x = Inr y) xs"
proof (induction xs)
  case Nil
  show ?case by simp
next
  case (Cons x xs)
  show ?case
  proof (cases "f x")
    case (Inl e)
    then show ?thesis by simp
  next
    case (Inr y)
    with Cons.IH show ?thesis by (cases "map_throwing f xs") auto
  qed
qed

lemma map_throwing_length: "map_throwing f xs = Inr ys \<Longrightarrow> length ys = length xs"
  by (induction xs arbitrary: ys) (auto split: sum.splits)

lemma cfContests_Inr_iff:
  "(\<exists>cfs. cfContests n (Payload d) = Inr cfs)
     \<longleftrightarrow> cf_status d = ''OK'' \<and> list_all cf_dates_valid (result d)"
proof -
  have "list_all (\<lambda>x. \<exists>y. cfContest n x = Inr y) (result d) = list_all cf_dates_valid (result d)"
    by (simp add: cfContest_Inr_iff)
  then show ?thesis
    by (simp add: cfContests_def map_throwing_Inr_iff)
qed

lemma lcContests_invalid_entry:
  assumes "\<not> list_all lc_dates_valid l"
  shows "lcContests n (Payload l) = []"
proof -
  have "list_all (\<lambda>x. \<exists>y. lcContest n x = Inr y) l = list_all lc_dates_valid l"
    by (simp add: lcContest_Inr_iff)
  with assms map_throwing_Inr_iff [of "lcContest n" l]
  have "\<not> (\<exists>ys. map_throwing (lcContest n) l = Inr ys)" by simp
  then show ?thesis by (cases "map_throwing (lcContest n) l") (simp_all add: lcContests_def)
qed

lemma lcContests_valid_entries:
  assumes "list_all lc_dates_valid l"
  shows "length (lcContests n (Payload l)) = length l"
proof -
  have "list_all (\<lambda>x. \<exists>y. lcContest n x = Inr y) l = list_all lc_dates_valid l"
    by (simp add: lcContest_Inr_iff)
  with assms map_throwing_Inr_iff [of "lcContest n" l]
  obtain ys where ys: "map_throwing (lcContest n) l = Inr ys" by auto
  from map_throwing_length [OF ys] ys show ?thesis by (simp add: lcContests_def)
qed

subsection \<open>Reconciliation against the persisted store\<close>

lemma sync_clears_links:
  assumes ok: "store_ok w"
    and cf: "cfContests (clock w) (cf_response w) = Inr cfs"
    and d: "distinct (map idC (contests_tbl (snd ps)))"
    and r: "r \<in> set (contests_tbl (snd (fetchAndSyncContests w ps)))"
    and i: "idC r \<in> idC ` set (cfs @ ccContests (clock w) (cc_response w) @ lcContests (clock w) (lc_response w))"
  shows "solution_link r = None"
proof -
  let ?batch = "cfs @ ccContests (clock w) (cc_response w) @ lcContests (clock w) (lc_response w)"
  from ok cf have "contests_tbl (snd (fetchAndSyncContests w ps)) = upsert_contests ?batch (contests_tbl (snd ps))"
    by (simp add: fetchAndSyncContests_def Let_def)
  with r have "r \<in> set (upsert_contests ?batch (contests_tbl (snd ps)))" by simp
  from upsert_contests_origin [OF d this] i have "r \<in> set ?batch" by blast
  then have "r \<in> set cfs \<or> r \<in> set (ccContests (clock w) (cc_response w)) \<or> r \<in> set (lcContests (clock w) (lc_response w))"
    by simp
  then show ?thesis
    using cfContests_link [OF cf] ccContests_link lcContests_link by blast
qed

text \<open>
  One CodeChef entry whose date does not parse empties the whole CodeChef list: the
  \<open>RangeError\<close> of \<open>toISOString()\<close> leaves the \<open>try\<close> before the assignment.
\<close>

lemma those_Some_no_None: "those xs = Some ys \<Longrightarrow> None \<notin> set xs"
  by (induction xs arbitrary: ys) (auto split: option.splits)

lemma ccContests_invalid_date:
  assumes "c \<in> set (future_contests d @ present_contests d @ past_contests d)"
    and "ccContest n c = None"
  shows "ccContests n (Payload d) = []"
proof (cases "those (map (ccContest n) (future_contests d @ present_contests d @ past_contests d))")
  case None
  then show ?thesis by (simp add: ccContests_def)
next
  case (Some cs)
  from those_Some_no_None [OF Some]
  have "None \<notin> set (map (ccContest n) (future_contests d @ present_contests d @ past_contests d))" .
  moreover from assms(1) have "ccContest n c \<in> set (map (ccContest n) (future_contests d @ present_contests d @ past_contests d))"
    by (simp only: set_map) (rule imageI)
  ultimately show ?thesis unfolding assms(2) by blast
qed

text \<open>
  C1. The claim: a persisted non-null \<open>solution_link\<close> survives reconciliation. The code
  upserts every fetched record with \<open>solution_link: null\<close> among its columns (part_004,
  lines 57, 77, 102 and 114), so the link is overwritten. After a first run has stored
  contest \<open>cf_1\<close> and \<open>handleAddSolution\<close> has set its link to \<open>https://video\<close>, the next
  run of \<open>fetchAndSyncContests\<close> on the same upstream data leaves the row with no link,
  in the store and on the page.
\<close>

theorem sync_overwrites_solution_link:
  "map idC (contests_tbl (snd ex_link_added)) = [''cf_1'']
   \<and> map solution_link (contests_tbl (snd ex_link_added)) = [Some ''https://video'']
   \<and> map idC (contests_tbl (snd ex_second_sync)) = [''cf_1'']
   \<and> map solution_link (contests_tbl (snd ex_second_sync)) = [None]
   \<and> map solution_link (contests (fst ex_second_sync)) = [None]"
  by code_simp

text \<open>
  C2, as amended. The Codeforces adapter gates the run. It completes exactly when the
  request answers with status \<open>OK\<close> and every entry has valid dates. When it does (and
  the store answers), the run sets no error, upserts the Codeforces records followed by
  whatever the CodeChef and LeetCode adapters delivered, and shows the stored rows, so
  every id of every source that delivered is in the store afterwards; a CodeChef or
  LeetCode request that fails contributes the empty list. When the Codeforces adapter
  does not complete, the run writes nothing, sets the error message and shows the rows
  persisted before.
\<close>

theorem codeforces_gates_the_run:
  assumes "store_ok w"
  shows "(case cfContests (clock w) (cf_response w) of
            Inl e \<Rightarrow>
              snd (fetchAndSyncContests w ps) = snd ps
              \<and> error (fst (fetchAndSyncContests w ps))
                  = Some ''Failed to fetch or sync contests. Displaying cached data if available.''
              \<and> contests (fst (fetchAndSyncContests w ps))
                  = map (withBookmark (clock_catch w) (bookmarks_tbl (snd ps))) (contests_tbl (snd ps))
          | Inr cfs \<Rightarrow>
              error (fst (fetchAndSyncContests w ps)) = None
              \<and> contests_tbl (snd (fetchAndSyncContests w ps))
                  = upsert_contests
                      (cfs @ ccContests (clock w) (cc_response w) @ lcContests (clock w) (lc_response w))
                      (contests_tbl (snd ps))
              \<and> idC ` set (contests_tbl (snd (fetchAndSyncContests w ps)))
                  = idC ` set (contests_tbl (snd ps)) \<union> idC ` set cfs
                    \<union> idC ` set (ccContests (clock w) (cc_response w))
                    \<union> idC ` set (lcContests (clock w) (lc_response w))
              \<and> contests (fst (fetchAndSyncContests w ps))
                  = map (withBookmark (clock w) (bookmarks_tbl (snd ps)))
                      (contests_tbl (snd (fetchAndSyncContests w ps))))
         \<and> cfContests (clock w) Unavailable = Inl FetchError
         \<and> ((\<exists>cfs. cfContests (clock w) (Payload d) = Inr cfs)
              \<longleftrightarrow> cf_status d = ''OK'' \<and> list_all cf_dates_valid (result d))
         \<and> ccContests (clock w) Unavailable = []
         \<and> lcContests (clock w) Unavailable = []"
proof -
  have adapters: "cfContests (clock w) Unavailable = Inl FetchError
         \<and> ((\<exists>cfs. cfContests (clock w) (Payload d) = Inr cfs)
              \<longleftrightarrow> cf_status d = ''OK'' \<and> list_all cf_dates_valid (result d))
         \<and> ccContests (clock w) Unavailable = []
         \<and> lcContests (clock w) Unavailable = []"
    using cfContests_Inr_iff [of "clock w" d]
    by (simp add: cfContests_def ccContests_def lcContests_def)
  show ?thesis
  proof (cases "cfContests (clock w) (cf_response w)")
    case (Inl e)
    with assms have "snd (fetchAndSyncContests w ps) = snd ps"
      and "error (fst (fetchAndSyncContests w ps))
             = Some ''Failed to fetch or sync contests. Displaying cached data if available.''"
      and "contests (fst (fetchAndSyncContests w ps))
             = map (withBookmark (clock_catch w) (bookmarks_tbl (snd ps))) (contests_tbl (snd ps))"
      by (simp_all add: fetchAndSyncContests_def syncFailed_def Let_def)
    with Inl adapters show ?thesis by simp
  next
    case (Inr cfs)
    let ?batch = "cfs @ ccContests (clock w) (cc_response w) @ lcContests (clock w) (lc_response w)"
    from Inr assms have t: "contests_tbl (snd (fetchAndSyncContests w ps))
                     = upsert_contests ?batch (contests_tbl (snd ps))"
      and e: "error (fst (fetchAndSyncContests w ps)) = None"
      and v: "contests (fst (fetchAndSyncContests w ps))
                = map (withBookmark (clock w) (bookmarks_tbl (snd ps)))
                    (contests_tbl (snd (fetchAndSyncContests w ps)))"
      by (simp_all add: fetchAndSyncContests_def Let_def)
    have "idC ` set (upsert_contests ?batch (contests_tbl (snd ps)))
            = idC ` set (contests_tbl (snd ps)) \<union> idC ` set cfs
              \<union> idC ` set (ccContests (clock w) (cc_response w))
              \<union> idC ` set (lcContests (clock w) (lc_response w))"
      by (simp add: upsert_contests_ids image_Un Un_assoc)
    with Inr t e v adapters show ?thesis by simp
  qed
qed

theorem codeforces_gates_the_run_witness:
  "store_ok ex_world_cc_down
   \<and> cc_response ex_world_cc_down = Unavailable
   \<and> error (fst (fetchAndSyncContests ex_world_cc_down (ex_page, ex_store_empty))) = None
   \<and> map idC (contests_tbl (snd (fetchAndSyncContests ex_world_cc_down (ex_page, ex_store_empty))))
       = [''cf_1'', ''lc_weekly-1'']
   \<and> store_ok ex_world_cf_down
   \<and> snd (fetchAndSyncContests ex_world_cf_down (ex_page, ex_store_empty)) = ex_store_empty"
proof -
  have h: "store_ok ex_world_cc_down" by (simp add: ex_world_cc_down_def)
  have c: "cfContests (clock ex_world_cc_down) (cf_response ex_world_cc_down) = Inr [ex_contest_cf1]"
    by code_simp
  have u: "map idC (upsert_contests
             ([ex_contest_cf1] @ ccContests (clock ex_world_cc_down) (cc_response ex_world_cc_down)
                @ lcContests (clock ex_world_cc_down) (lc_response ex_world_cc_down))
             (contests_tbl (snd (ex_page, ex_store_empty)))) = [''cf_1'', ''lc_weekly-1'']"
    by code_simp
  from codeforces_gates_the_run [OF h, of "(ex_page, ex_store_empty)"]
  have "error (fst (fetchAndSyncContests ex_world_cc_down (ex_page, ex_store_empty))) = None
        \<and> contests_tbl (snd (fetchAndSyncContests ex_world_cc_down (ex_page, ex_store_empty)))
            = upsert_contests
               ([ex_contest_cf1] @ ccContests (clock ex_world_cc_down) (cc_response ex_world_cc_down)
                  @ lcContests (clock ex_world_cc_down) (lc_response ex_world_cc_down))
               (contests_tbl (snd (ex_page, ex_store_empty)))"
    unfolding c by simp
  with u h have ok: "store_ok ex_world_cc_down
     \<and> cc_response ex_world_cc_down = Unavailable
     \<and> error (fst (fetchAndSyncContests ex_world_cc_down (ex_page, ex_store_empty))) = None
     \<and> map idC (contests_tbl (snd (fetchAndSyncContests ex_world_cc_down (ex_page, ex_store_empty))))
         = [''cf_1'', ''lc_weekly-1'']"
    by (simp add: ex_world_cc_down_def)
  have h': "store_ok ex_world_cf_down" by (simp add: ex_world_cf_down_def)
  have c': "cfContests (clock ex_world_cf_down) (cf_response ex_world_cf_down) = Inl FetchError"
    by (simp add: ex_world_cf_down_def cfContests_def)
  from codeforces_gates_the_run [OF h', of "(ex_page, ex_store_empty)"]
  have "snd (fetchAndSyncContests ex_world_cf_down (ex_page, ex_store_empty)) = ex_store_empty"
    unfolding c' by simp
  with ok h' show ?thesis by simp
qed

text \<open>
  The claim of C2 as stated fails when the failing source is Codeforces. With its
  request failed, CodeChef and LeetCode each deliver a contest, and the run stores and
  shows nothing. The same happens when Codeforces answers with status \<open>OK\<close> and one entry
  whose start lies beyond the range of \<open>Date\<close>.
\<close>

theorem codeforces_failure_aborts_counterexample:
  "cf_response ex_world_cf_down = Unavailable
   \<and> map idC (ccContests 0 (cc_response ex_world_cf_down)) = [''cc_START1'']
   \<and> map idC (lcContests 0 (lc_response ex_world_cf_down)) = [''lc_weekly-1'']
   \<and> contests_tbl (snd (fetchAndSyncContests ex_world_cf_down (ex_page, ex_store_empty))) = []
   \<and> contests (fst (fetchAndSyncContests ex_world_cf_down (ex_page, ex_store_empty))) = []
   \<and> error (fst (fetchAndSyncContests ex_world_cf_down (ex_page, ex_store_empty)))
       = Some ''Failed to fetch or sync contests. Displaying cached data if available.''
   \<and> cfContests 0 (cf_response ex_world_cf_beyond) = Inl RangeError
   \<and> contests_tbl (snd (fetchAndSyncContests ex_world_cf_beyond (ex_page, ex_store_empty))) = []
   \<and> error (fst (fetchAndSyncContests ex_world_cf_beyond (ex_page, ex_store_empty)))
       = Some ''Failed to fetch or sync contests. Displaying cached data if available.''"
  by code_simp

subsection \<open>Bookmark toggles\<close>

lemma upsert_bookmark_idem:
  "upsert_bookmark b (upsert_bookmark b tbl) = upsert_bookmark b tbl"
  by (induction tbl) auto

lemma upsert_bookmark_present:
  "distinct (map idB tbl) \<Longrightarrow> b \<in> set tbl \<Longrightarrow> upsert_bookmark b tbl = tbl"
proof (induction tbl)
  case Nil
  then show ?case by simp
next
  case (Cons r rs)
  show ?case
  proof (cases "r = b")
    case True
    then show ?thesis by simp
  next
    case False
    with Cons.prems have m: "b \<in> set rs" and f: "idB r \<notin> idB ` set rs" and d: "distinct (map idB rs)"
      by simp_all
    from m have "idB b \<in> idB ` set rs" by (rule imageI)
    with f have "idB r \<noteq> idB b" by metis
    with Cons.IH [OF d m] show ?thesis by simp
  qed
qed

lemma delete_bookmark_idem:
  "delete_bookmark cid uid (delete_bookmark cid uid tbl) = delete_bookmark cid uid tbl"
  by (simp add: delete_bookmark_def)

lemma delete_bookmark_absent:
  "(uid, cid) \<notin> set (map (\<lambda>b. (user_id b, contest_id b)) tbl) \<Longrightarrow> delete_bookmark cid uid tbl = tbl"
  unfolding delete_bookmark_def
  by (rule filter_True) force

text \<open>
  What the toggles do to the store, branch by branch: the add branch of part_004 on a
  bookmark that is present and the remove branches on one that is absent leave the
  table as it is and report success.
\<close>

lemma find_after_flip:
  "find (\<lambda>c. idC c = i) xs = Some c \<Longrightarrow>
     find (\<lambda>c. idC c = i)
       (map (\<lambda>c. if idC c = i then c\<lparr> isBookmarked := Some (\<not> truthy (isBookmarked c)) \<rparr> else c) xs)
     = Some (c\<lparr> isBookmarked := Some (\<not> truthy (isBookmarked c)) \<rparr>)"
  by (induction xs) (auto split: if_splits)

lemma upsert_bookmark_mem: "b \<in> set (upsert_bookmark b tbl)"
  by (induction tbl) auto

lemma toggleBookmark_add_present:
  assumes shown: "find (\<lambda>c. idC c = i) (contests pg) = Some c" and off: "\<not> truthy (isBookmarked c)"
    and d: "distinct (map idB (bookmarks_tbl st))"
    and present: "\<lparr> idB = i @ ''_'' @ u, user_id = u, contest_id = i \<rparr> \<in> set (bookmarks_tbl st)"
  shows "snd (fst (toggleBookmark (Some u) i (pg, st))) = st
       \<and> snd (toggleBookmark (Some u) i (pg, st)) = ToastSuccess ''Contest bookmarked!''"
proof -
  from find_after_flip [OF shown] off
  have on: "(case find (\<lambda>c. idC c = i)
                (map (\<lambda>c. if idC c = i then c\<lparr> isBookmarked := Some (\<not> truthy (isBookmarked c)) \<rparr> else c)
                   (contests pg)) of
              None \<Rightarrow> False | Some c \<Rightarrow> truthy (isBookmarked c))"
    by (simp add: truthy_def)
  have same: "upsert_bookmark \<lparr> idB = i @ ''_'' @ u, user_id = u, contest_id = i \<rparr> (bookmarks_tbl st)
                = bookmarks_tbl st"
    by (rule upsert_bookmark_present [OF d present])
  from on same show ?thesis
    by (simp add: toggleBookmark_def Let_def)
qed

lemma toggleBookmark_remove_absent:
  assumes shown: "find (\<lambda>c. idC c = i) (contests pg) = Some c" and on: "truthy (isBookmarked c)"
    and absent: "(u, i) \<notin> set (map (\<lambda>b. (user_id b, contest_id b)) (bookmarks_tbl st))"
  shows "snd (fst (toggleBookmark (Some u) i (pg, st))) = st
       \<and> snd (toggleBookmark (Some u) i (pg, st)) = ToastSuccess ''Bookmark removed!''"
proof -
  from find_after_flip [OF shown] on
  have off: "\<not> (case find (\<lambda>c. idC c = i)
                (map (\<lambda>c. if idC c = i then c\<lparr> isBookmarked := Some (\<not> truthy (isBookmarked c)) \<rparr> else c)
                   (contests pg)) of
              None \<Rightarrow> False | Some c \<Rightarrow> truthy (isBookmarked c))"
    by (simp add: truthy_def)
  from off show ?thesis
    by (simp add: toggleBookmark_def Let_def delete_bookmark_absent [OF absent])
qed

lemma toggleBookmark3_remove_absent:
  assumes "userId pg = Some u" and "u \<noteq> []" and "i \<in> bookmarkedIds pg"
    and absent: "(u, i) \<notin> set (map (\<lambda>b. (user_id b, contest_id b)) (bookmarks_tbl st))"
  shows "snd (fst (toggleBookmark3 unique_pair new_id i (pg, st))) = st
       \<and> snd (toggleBookmark3 unique_pair new_id i (pg, st)) = ToastSuccess ''Removed from bookmarks''"
  using assms(1-3) by (simp add: toggleBookmark3_def Let_def delete_bookmark_absent [OF absent])

lemma toggleBookmark3_signed_out:
  "userId pg = None \<Longrightarrow>
     toggleBookmark3 unique_pair new_id i (pg, st)
       = ((pg, st), ToastError ''Please sign in to bookmark contests'')"
  by (simp add: toggleBookmark3_def Let_def)

lemma toggleBookmark_signed_out_writes:
  assumes shown: "find (\<lambda>c. idC c = i) (contests pg) = Some c" and off: "\<not> truthy (isBookmarked c)"
  shows "\<lparr> idB = i @ ''_default_user'', user_id = ''default_user'', contest_id = i \<rparr>
           \<in> set (bookmarks_tbl (snd (fst (toggleBookmark None i (pg, st)))))
       \<and> snd (toggleBookmark None i (pg, st)) = ToastSuccess ''Contest bookmarked!''"
proof -
  from find_after_flip [OF shown] off
  have on: "(case find (\<lambda>c. idC c = i)
                (map (\<lambda>c. if idC c = i then c\<lparr> isBookmarked := Some (\<not> truthy (isBookmarked c)) \<rparr> else c)
                   (contests pg)) of
              None \<Rightarrow> False | Some c \<Rightarrow> truthy (isBookmarked c))"
    by (simp add: truthy_def)
  from on show ?thesis
    using upsert_bookmark_mem [of "\<lparr> idB = i @ ''_default_user'', user_id = ''default_user'', contest_id = i \<rparr>" "bookmarks_tbl st"]
    by (simp add: toggleBookmark_def Let_def)
qed

text \<open>
  C5. The claim: adding a bookmark that is already present succeeds without error and
  leaves the bookmark state unchanged. In part_003 the add branch of \<open>toggleBookmark\<close>
  is a plain \<open>insert\<close>, taken whenever the page's own set of bookmarked ids lacks the
  contest. With the bookmark of \<open>cf_1\<close> already in the store and the page's set empty,
  the call reports \<open>Failed to update bookmark\<close> when the store rejects the second row,
  and otherwise leaves two rows for the same user and contest. (The add branch of
  part_004 is an \<open>upsert\<close> on the row's id, and both revisions' \<open>delete\<close> is a filter:
  the lemmas above.)
\<close>

theorem toggleBookmark3_insert_of_present_bookmark:
  "toggleBookmark3 unique_pair new_id ''cf_1'' (ex_page3_stale, ex_store_bookmarked)
     = (if unique_pair \<or> new_id = ''b1''
        then ((ex_page3_stale, ex_store_bookmarked), ToastError ''Failed to update bookmark'')
        else ((ex_page3_stale\<lparr> bookmarkedIds := {''cf_1''} \<rparr>,
               ex_store_bookmarked\<lparr> bookmarks_tbl :=
                 [ex_bookmark, \<lparr> idB = new_id, user_id = ''u1'', contest_id = ''cf_1'' \<rparr>] \<rparr>),
              ToastSuccess ''Added to bookmarks''))"
  by (simp add: toggleBookmark3_def insert_bookmark_def ex_page3_stale_def ex_store_bookmarked_def
        ex_bookmark_def Let_def)

text \<open>
  C6. The claim: with nobody signed in, a bookmark mutation writes nothing and asks the
  user to sign in. part_003 does so. part_004 (line 237) replaces the missing user id
  by \<open>'default_user'\<close>: toggling \<open>cf_1\<close> with nobody signed in upserts the row
  \<open>cf_1_default_user\<close> and reports \<open>Contest bookmarked!\<close>.
\<close>

theorem toggleBookmark_writes_as_default_user:
  "toggleBookmark None ''cf_1'' (ex_page_cf1, ex_store_empty)
     = ((ex_page_cf1\<lparr> contests := [ex_contest_cf1\<lparr> isBookmarked := Some True \<rparr>] \<rparr>,
         ex_store_empty\<lparr> bookmarks_tbl :=
            [\<lparr> idB = ''cf_1_default_user'', user_id = ''default_user'', contest_id = ''cf_1'' \<rparr>] \<rparr>),
        ToastSuccess ''Contest bookmarked!'')
   \<and> toggleBookmark3 unique_pair new_id ''cf_1'' (ex_page3_signed_out, ex_store_empty)
     = ((ex_page3_signed_out, ex_store_empty), ToastError ''Please sign in to bookmark contests'')"
  by (simp add: toggleBookmark_def toggleBookmark3_def ex_page_cf1_def ex_store_empty_def
        ex_page3_signed_out_def truthy_def ex_contest_cf1_def Let_def)

subsection \<open>Normalization: identifiers and instants\<close>

lemma ex_contest_cf1_built: "cfContest 0 ex_cf1 = Inr ex_contest_cf1"
  by code_simp

lemma cfContest_id: "cfContest n c = Inr k \<Longrightarrow> idC k = ''cf_'' @ cf_id c"
  by (auto simp: cfContest_def split: option.splits)

lemma ccContest_id: "ccContest n c = Some k \<Longrightarrow> idC k = ''cc_'' @ contest_code c"
  by (auto simp: ccContest_def split: option.splits)

lemma lcContest_id: "lcContest n c = Inr k \<Longrightarrow> idC k = ''lc_'' @ titleSlug c"
  by (auto simp: lcContest_def split: option.splits)

text \<open>
  C7, as amended. Every record an adapter produces has for id a two-letter platform
  prefix, an underscore and the platform-native identifier as the template literal
  prints it: \<open>cf_\<close> and the Codeforces contest number, \<open>cc_\<close> and the CodeChef contest
  code, \<open>lc_\<close> and the LeetCode title slug. An entry gets a record exactly when its dates
  are valid. The id depends on the entry only, not on the time of the fetch; two
  entries of one platform get the same id exactly when their native identifiers print
  alike, and ids of different platforms differ.
\<close>

theorem contest_id_is_prefix_underscore_native:
  "(case cfContest now c of Inl e \<Rightarrow> True | Inr k \<Rightarrow> idC k = ''cf_'' @ cf_id c)
   \<and> (case ccContest now r of None \<Rightarrow> True | Some k \<Rightarrow> idC k = ''cc_'' @ contest_code r)
   \<and> (case lcContest now l of Inl e \<Rightarrow> True | Inr k \<Rightarrow> idC k = ''lc_'' @ titleSlug l)
   \<and> ((\<exists>k. cfContest now c = Inr k) \<longleftrightarrow> cf_dates_valid c)
   \<and> ((\<exists>k. lcContest now l = Inr k) \<longleftrightarrow> lc_dates_valid l)
   \<and> map_sum id idC (cfContest now c) = map_sum id idC (cfContest now' c)
   \<and> map_option idC (ccContest now r) = map_option idC (ccContest now' r)
   \<and> map_sum id idC (lcContest now l) = map_sum id idC (lcContest now' l)
   \<and> (cfContest now c = Inr kf \<and> cfContest now' c' = Inr kf'
        \<longrightarrow> (idC kf = idC kf' \<longleftrightarrow> cf_id c = cf_id c'))
   \<and> (ccContest now r = Some kc \<and> ccContest now' r' = Some kc'
        \<longrightarrow> (idC kc = idC kc' \<longleftrightarrow> contest_code r = contest_code r'))
   \<and> (lcContest now l = Inr kl \<and> lcContest now' l' = Inr kl'
        \<longrightarrow> (idC kl = idC kl' \<longleftrightarrow> titleSlug l = titleSlug l'))
   \<and> (cfContest now c = Inr kf \<and> ccContest now' r = Some kc \<longrightarrow> idC kf \<noteq> idC kc)
   \<and> (cfContest now c = Inr kf \<and> lcContest now' l = Inr kl \<longrightarrow> idC kf \<noteq> idC kl)
   \<and> (ccContest now r = Some kc \<and> lcContest now' l = Inr kl \<longrightarrow> idC kc \<noteq> idC kl)"
proof -
  have a: "case cfContest now c of Inl e \<Rightarrow> True | Inr k \<Rightarrow> idC k = ''cf_'' @ cf_id c"
    by (simp add: cfContest_id split: sum.splits)
  have b: "case ccContest now r of None \<Rightarrow> True | Some k \<Rightarrow> idC k = ''cc_'' @ contest_code r"
    by (simp add: ccContest_id split: option.splits)
  have c: "case lcContest now l of Inl e \<Rightarrow> True | Inr k \<Rightarrow> idC k = ''lc_'' @ titleSlug l"
    by (simp add: lcContest_id split: sum.splits)
  have d1: "map_sum id idC (cfContest now c) = map_sum id idC (cfContest now' c)"
    by (simp add: cfContest_def split: option.splits)
  have d2: "map_option idC (ccContest now r) = map_option idC (ccContest now' r)"
    by (simp add: ccContest_def split: option.splits)
  have d3: "map_sum id idC (lcContest now l) = map_sum id idC (lcContest now' l)"
    by (simp add: lcContest_def split: option.splits)
  have i1: "cfContest now c = Inr kf \<and> cfContest now' c' = Inr kf'
        \<longrightarrow> (idC kf = idC kf' \<longleftrightarrow> cf_id c = cf_id c')"
    by (auto dest!: cfContest_id)
  have i2: "ccContest now r = Some kc \<and> ccContest now' r' = Some kc'
        \<longrightarrow> (idC kc = idC kc' \<longleftrightarrow> contest_code r = contest_code r')"
    by (auto dest!: ccContest_id)
  have i3: "lcContest now l = Inr kl \<and> lcContest now' l' = Inr kl'
        \<longrightarrow> (idC kl = idC kl' \<longleftrightarrow> titleSlug l = titleSlug l')"
    by (auto dest!: lcContest_id)
  have x1: "cfContest now c = Inr kf \<and> ccContest now' r = Some kc \<longrightarrow> idC kf \<noteq> idC kc"
    by (auto dest!: cfContest_id ccContest_id)
  have x2: "cfContest now c = Inr kf \<and> lcContest now' l = Inr kl \<longrightarrow> idC kf \<noteq> idC kl"
    by (auto dest!: cfContest_id lcContest_id)
  have x3: "ccContest now r = Some kc \<and> lcContest now' l = Inr kl \<longrightarrow> idC kc \<noteq> idC kl"
    by (auto dest!: ccContest_id lcContest_id)
  from a b c cfContest_Inr_iff [of now c] lcContest_Inr_iff [of now l] d1 d2 d3 i1 i2 i3 x1 x2 x3
  show ?thesis by blast
qed


theorem contest_id_is_prefix_underscore_native_witness:
  "cfContest 0 ex_cf1 = Inr ex_contest_cf1
   \<and> idC ex_contest_cf1 = ''cf_1''
   \<and> cf_dates_valid ex_cf1
   \<and> map_sum id idC (cfContest 60000 ex_cf1) = Inr ''cf_1''
   \<and> map_sum id idC (cfContest 60000 ex_cf_backwards) \<noteq> Inr (idC ex_contest_cf1)
   \<and> map_option idC (ccContest 60000 ex_cc1) \<noteq> Some (idC ex_contest_cf1)
   \<and> map_sum id idC (lcContest 60000 ex_lc1) \<noteq> Inr (idC ex_contest_cf1)"
proof -
  have r1: "cfContest 0 ex_cf1 = Inr ex_contest_cf1" by code_simp
  obtain kb where kb: "cfContest 60000 ex_cf_backwards = Inr kb"
    by (simp add: cfContest_def ex_cf_backwards_def new_Date_def valid_time_def)
  obtain kc where kc: "ccContest 60000 ex_cc1 = Some kc"
    by (simp add: ccContest_def ex_cc1_def new_Date_def valid_time_def)
  obtain kl where kl: "lcContest 60000 ex_lc1 = Inr kl"
    by (simp add: lcContest_def ex_lc1_def lc_seconds_def new_Date_def valid_time_def)
  have n: "cf_id ex_cf1 = ''1''" and nb: "cf_id ex_cf1 \<noteq> cf_id ex_cf_backwards"
    by (simp_all add: ex_cf1_def ex_cf_backwards_def)
  note t = contest_id_is_prefix_underscore_native
             [where now = 0 and c = ex_cf1 and r = ex_cc1 and l = ex_lc1 and now' = 60000
                and kf = ex_contest_cf1 and c' = ex_cf_backwards and kf' = kb
                and kc = kc and r' = ex_cc1 and kc' = kc and kl = kl and l' = ex_lc1 and kl' = kl]
  from t have "case cfContest 0 ex_cf1 of Inl e \<Rightarrow> True | Inr k \<Rightarrow> idC k = ''cf_'' @ cf_id ex_cf1"
    by blast
  then have a: "idC ex_contest_cf1 = ''cf_1''" unfolding r1 n by simp
  from t r1 have v: "cf_dates_valid ex_cf1" by blast
  from t have "map_sum id idC (cfContest 0 ex_cf1) = map_sum id idC (cfContest 60000 ex_cf1)"
    by blast
  then have d: "map_sum id idC (cfContest 60000 ex_cf1) = Inr ''cf_1''"
    unfolding r1 by (simp add: a)
  from t r1 kb nb have "idC ex_contest_cf1 \<noteq> idC kb" by blast
  with kb have e: "map_sum id idC (cfContest 60000 ex_cf_backwards) \<noteq> Inr (idC ex_contest_cf1)"
    by auto
  from t r1 kc have "idC ex_contest_cf1 \<noteq> idC kc" by blast
  with kc have f: "map_option idC (ccContest 60000 ex_cc1) \<noteq> Some (idC ex_contest_cf1)" by auto
  from t r1 kl have "idC ex_contest_cf1 \<noteq> idC kl" by blast
  with kl have g: "map_sum id idC (lcContest 60000 ex_lc1) \<noteq> Inr (idC ex_contest_cf1)" by auto
  from r1 a v d e f g show ?thesis by blast
qed

text \<open>
  The claim of C7 as stated fails: the id of the Codeforces contest 1 is \<open>cf_1\<close>, which is
  neither \<open>Codeforces:1\<close> nor \<open>cf:1\<close>; it contains no colon.
\<close>

theorem contest_id_counterexample:
  "cfContest 0 ex_cf1 = Inr ex_contest_cf1
   \<and> idC ex_contest_cf1 = ''cf_1''
   \<and> platform ex_contest_cf1 = Codeforces
   \<and> cf_id ex_cf1 = ''1''
   \<and> idC ex_contest_cf1 \<noteq> spec_id (platform_tag (platform ex_contest_cf1)) (cf_id ex_cf1)
   \<and> idC ex_contest_cf1 \<noteq> spec_id ''cf'' (cf_id ex_cf1)
   \<and> CHR '':'' \<notin> set (idC ex_contest_cf1)"
  by code_simp

lemma neg_div_pos: "(a::int) < 0 \<Longrightarrow> 0 < b \<Longrightarrow> a div b < 0"
  by (simp add: div_neg_pos_less0)

text \<open>
  C8, as amended. Normalization does not compare the two instants. An upstream entry
  whose end is earlier than its start (a negative Codeforces or LeetCode duration, a
  CodeChef end date before the start date) and whose two dates are valid yields a
  contest that carries both instants as they came, end before start, and a negative
  duration in minutes: nothing is swapped, clamped or rejected. The only error of an
  entry is the \<open>RangeError\<close> of a date that is not valid, whatever the order of its
  instants.
\<close>

theorem end_before_start_is_kept_as_is:
  "(startTimeSeconds c = Some s \<and> durationSeconds c = Some d \<and> d < 0
      \<and> valid_time (s * 1000) \<and> valid_time ((s + d) * 1000) \<longrightarrow>
       (\<exists>k. cfContest now c = Inr k \<and> start_time k = s * 1000 \<and> end_time k = (s + d) * 1000
            \<and> end_time k < start_time k \<and> duration k < 0))
   \<and> (contest_start_date r = Some s' \<and> contest_end_date r = Some e' \<and> e' < s'
      \<and> valid_time s' \<and> valid_time e' \<longrightarrow>
       (\<exists>k. ccContest now r = Some k \<and> start_time k = s' \<and> end_time k = e'
            \<and> end_time k < start_time k \<and> duration k < 0))
   \<and> (lc_startTime l = Some t \<and> lc_duration l = Some x \<and> x < 0
      \<and> valid_time (t * 1000) \<and> valid_time ((t + x) * 1000) \<longrightarrow>
       (\<exists>k. lcContest now l = Inr k \<and> start_time k = t * 1000 \<and> end_time k = (t + x) * 1000
            \<and> end_time k < start_time k \<and> duration k < 0))
   \<and> (\<not> cf_dates_valid c \<longrightarrow> cfContest now c = Inl RangeError)
   \<and> (\<not> lc_dates_valid l \<longrightarrow> lcContest now l = Inl RangeError)"
proof -
  have cf: "startTimeSeconds c = Some s \<and> durationSeconds c = Some d \<and> d < 0
      \<and> valid_time (s * 1000) \<and> valid_time ((s + d) * 1000) \<longrightarrow>
       (\<exists>k. cfContest now c = Inr k \<and> start_time k = s * 1000 \<and> end_time k = (s + d) * 1000
            \<and> end_time k < start_time k \<and> duration k < 0)"
    by (simp add: cfContest_def new_Date_def neg_div_pos)
  have "e' < s' \<Longrightarrow> round_double (e' - s') div 60000 < 0"
    by (simp add: neg_div_pos round_double_neg)
  then have cc: "contest_start_date r = Some s' \<and> contest_end_date r = Some e' \<and> e' < s'
      \<and> valid_time s' \<and> valid_time e' \<longrightarrow>
       (\<exists>k. ccContest now r = Some k \<and> start_time k = s' \<and> end_time k = e'
            \<and> end_time k < start_time k \<and> duration k < 0)"
    by (simp add: ccContest_def new_Date_def)
  have lc: "lc_startTime l = Some t \<and> lc_duration l = Some x \<and> x < 0
      \<and> valid_time (t * 1000) \<and> valid_time ((t + x) * 1000) \<longrightarrow>
       (\<exists>k. lcContest now l = Inr k \<and> start_time k = t * 1000 \<and> end_time k = (t + x) * 1000
            \<and> end_time k < start_time k \<and> duration k < 0)"
    by (simp add: lcContest_def lc_seconds_def lc_minutes_def new_Date_def neg_div_pos)
  have e1: "\<not> cf_dates_valid c \<longrightarrow> cfContest now c = Inl RangeError"
    by (auto simp: cfContest_def cf_dates_valid_def new_Date_def split: option.splits)
  have e2: "\<not> lc_dates_valid l \<longrightarrow> lcContest now l = Inl RangeError"
    by (auto simp: lcContest_def lc_dates_valid_def new_Date_def split: option.splits)
  from cf cc lc e1 e2 show ?thesis by blast
qed


theorem end_before_start_is_kept_as_is_witness:
  "startTimeSeconds ex_cf_backwards = Some 7200 \<and> durationSeconds ex_cf_backwards = Some (- 3600)
   \<and> map_sum id start_time (cfContest 0 ex_cf_backwards) = Inr 7200000
   \<and> map_sum id end_time (cfContest 0 ex_cf_backwards) = Inr 3600000
   \<and> contest_start_date ex_cc_backwards = Some 7200000
   \<and> contest_end_date ex_cc_backwards = Some 0
   \<and> map_option start_time (ccContest 0 ex_cc_backwards) = Some 7200000
   \<and> map_option end_time (ccContest 0 ex_cc_backwards) = Some 0
   \<and> lc_startTime ex_lc_backwards = Some 7200 \<and> lc_duration ex_lc_backwards = Some (- 3600)
   \<and> map_sum id end_time (lcContest 0 ex_lc_backwards) = Inr 3600000
   \<and> \<not> cf_dates_valid ex_cf_beyond
   \<and> cfContest 0 ex_cf_beyond = Inl RangeError
   \<and> \<not> lc_dates_valid ex_lc_beyond
   \<and> lcContest 0 ex_lc_beyond = Inl RangeError"
proof -
  have a: "startTimeSeconds ex_cf_backwards = Some 7200 \<and> durationSeconds ex_cf_backwards = Some (- 3600)
           \<and> (- 3600::int) < 0 \<and> valid_time (7200 * 1000) \<and> valid_time ((7200 + - 3600) * 1000)"
    by (simp add: ex_cf_backwards_def valid_time_def)
  have b: "contest_start_date ex_cc_backwards = Some 7200000 \<and> contest_end_date ex_cc_backwards = Some 0
           \<and> (0::int) < 7200000 \<and> valid_time 7200000 \<and> valid_time 0"
    by (simp add: ex_cc_backwards_def valid_time_def)
  have c: "lc_startTime ex_lc_backwards = Some 7200 \<and> lc_duration ex_lc_backwards = Some (- 3600)
           \<and> (- 3600::int) < 0 \<and> valid_time (7200 * 1000) \<and> valid_time ((7200 + - 3600) * 1000)"
    by (simp add: ex_lc_backwards_def valid_time_def)
  note t = end_before_start_is_kept_as_is
             [where c = ex_cf_backwards and s = 7200 and d = "- 3600" and now = 0
                and r = ex_cc_backwards and s' = 7200000 and e' = 0
                and l = ex_lc_backwards and t = 7200 and x = "- 3600"]
  from t a obtain kf where "cfContest 0 ex_cf_backwards = Inr kf" "start_time kf = 7200 * 1000"
    "end_time kf = (7200 + - 3600) * 1000" by blast
  then have cf: "map_sum id start_time (cfContest 0 ex_cf_backwards) = Inr 7200000
                 \<and> map_sum id end_time (cfContest 0 ex_cf_backwards) = Inr 3600000"
    by simp
  from t b obtain kc where "ccContest 0 ex_cc_backwards = Some kc" "start_time kc = 7200000"
    "end_time kc = 0" by blast
  then have cc: "map_option start_time (ccContest 0 ex_cc_backwards) = Some 7200000
                 \<and> map_option end_time (ccContest 0 ex_cc_backwards) = Some 0"
    by simp
  from t c obtain kl where "lcContest 0 ex_lc_backwards = Inr kl"
    "end_time kl = (7200 + - 3600) * 1000" by blast
  then have lc: "map_sum id end_time (lcContest 0 ex_lc_backwards) = Inr 3600000" by simp
  have v: "\<not> cf_dates_valid ex_cf_beyond" and w: "\<not> lc_dates_valid ex_lc_beyond"
    by (simp_all add: cf_dates_valid_def lc_dates_valid_def ex_cf_beyond_def ex_lc_beyond_def
          valid_time_def)
  note u = end_before_start_is_kept_as_is [where c = ex_cf_beyond and l = ex_lc_beyond and now = 0]
  from u v have e1: "cfContest 0 ex_cf_beyond = Inl RangeError" by blast
  from u w have e2: "lcContest 0 ex_lc_beyond = Inl RangeError" by blast
  from a b c cf cc lc v w e1 e2 show ?thesis by blast
qed

text \<open>
  The claim of C8 as stated fails: the three backwards entries are normalized without an
  error, stored by the run, and keep their end before their start.
\<close>

theorem end_before_start_counterexample:
  "map_option start_time (ccContest 0 ex_cc_backwards) = Some 7200000
   \<and> map_option end_time (ccContest 0 ex_cc_backwards) = Some 0
   \<and> map_option duration (ccContest 0 ex_cc_backwards) = Some (- 120)
   \<and> map_sum id start_time (cfContest 0 ex_cf_backwards) = Inr 7200000
   \<and> map_sum id end_time (cfContest 0 ex_cf_backwards) = Inr 3600000
   \<and> map idC (contests_tbl (snd (fetchAndSyncContests ex_world_backwards (ex_page, ex_store_empty))))
       = [''cf_2'', ''cc_START2'', ''lc_weekly-2'']
   \<and> map start_time (contests_tbl (snd (fetchAndSyncContests ex_world_backwards (ex_page, ex_store_empty))))
       = [7200000, 7200000, 7200000]
   \<and> map end_time (contests_tbl (snd (fetchAndSyncContests ex_world_backwards (ex_page, ex_store_empty))))
       = [3600000, 0, 3600000]
   \<and> error (fst (fetchAndSyncContests ex_world_backwards (ex_page, ex_store_empty))) = None"
  by code_simp

subsection \<open>Time remaining\<close>

text \<open>
  C9, as amended. For a contest whose start is a valid date after the clock reading, at
  most \<open>2^53\<close> milliseconds after it (as it is for every clock reading after 1970), each
  of the nine renderers under \<open>src/\<close> computes the same whole days, hours and minutes
  of \<open>start_time - now\<close> by floor division: the days, hours (below 24) and minutes (below 60) whose sum is at most the
  difference and misses it by less than a minute. The texts differ. Six renderers print
  days, hours and minutes (\<open>src/pages/Contests.tsx\<close>, both pages of part_003, part_007,
  \<open>Dashboard.tsx\<close>, \<open>Solutions.tsx\<close>); \<open>Calendar.tsx\<close> and part_004 leave the days out when
  there are none; \<open>getTimeStatus\<close> of part_008 prints \<open>Starts in\<close>, the days and the hours,
  and no minutes. Once the start is reached no duration is printed: the text is
  \<open>Started\<close> in the first page of part_003, \<open>Dashboard.tsx\<close> and \<open>Solutions.tsx\<close>,
  \<open>Ended\<close> in \<open>src/pages/Contests.tsx\<close>, the second page of part_003, part_007,
  \<open>Calendar.tsx\<close> and part_008, and in part_004 \<open>Ongoing\<close> until the end and \<open>Ended\<close>
  after it.
\<close>

theorem time_remaining_truncated_while_upcoming:
  assumes "valid_time start" and "start - now \<le> 9007199254740992"
  shows
  "if now < start
   then (\<exists>days hours minutes.
           0 \<le> days \<and> 0 \<le> hours \<and> hours < 24 \<and> 0 \<le> minutes \<and> minutes < 60
         \<and> days * 86400000 + hours * 3600000 + minutes * 60000 \<le> start - now
         \<and> start - now < days * 86400000 + hours * 3600000 + minutes * 60000 + 60000
         \<and> getTimeRemaining_Contests (Some start) now = show_int days @ ''d '' @ show_int hours @ ''h '' @ show_int minutes @ ''m''
         \<and> getTimeRemaining_part003 (Some start) now = show_int days @ ''d '' @ show_int hours @ ''h '' @ show_int minutes @ ''m''
         \<and> getTimeRemaining_part003b (Some start) now = show_int days @ ''d '' @ show_int hours @ ''h '' @ show_int minutes @ ''m''
         \<and> getTimeRemaining_part007 (Some start) now = show_int days @ ''d '' @ show_int hours @ ''h '' @ show_int minutes @ ''m''
         \<and> getTimeRemaining_Dashboard (Some start) now = show_int days @ ''d '' @ show_int hours @ ''h '' @ show_int minutes @ ''m''
         \<and> getTimeRemaining_Solutions (Some start) now = show_int days @ ''d '' @ show_int hours @ ''h '' @ show_int minutes @ ''m''
         \<and> getTimeRemaining_Calendar (Some start) now
             = (if days > 0 then show_int days @ ''d '' @ show_int hours @ ''h '' @ show_int minutes @ ''m''
                else show_int hours @ ''h '' @ show_int minutes @ ''m'')
         \<and> getTimeRemaining_part004 (Some start) endTime now
             = (if days > 0 then show_int days @ ''d '' @ show_int hours @ ''h '' @ show_int minutes @ ''m''
                else show_int hours @ ''h '' @ show_int minutes @ ''m'')
         \<and> getTimeStatus (Some start) now = ''Starts in '' @ show_int days @ ''d '' @ show_int hours @ ''h'')
   else (getTimeRemaining_Contests (Some start) now = ''Ended''
         \<and> getTimeRemaining_part003 (Some start) now = ''Started''
         \<and> getTimeRemaining_part003b (Some start) now = ''Ended''
         \<and> getTimeRemaining_part007 (Some start) now = ''Ended''
         \<and> getTimeRemaining_Dashboard (Some start) now = ''Started''
         \<and> getTimeRemaining_Solutions (Some start) now = ''Started''
         \<and> getTimeRemaining_Calendar (Some start) now = ''Ended''
         \<and> getTimeStatus (Some start) now = ''Ended''
         \<and> getTimeRemaining_part004 (Some start) endTime now
             = (if later (new_Date endTime) now then ''Ongoing'' else ''Ended''))"
proof (cases "now < start")
  case True
  then have pos: "0 < start - now" by simp
  with assms(2) have rd: "round_double (start - now) = start - now"
    by (intro round_double_exact) simp_all
  from assms(1) have nd: "new_Date (Some start) = Some start" by (simp add: new_Date_def)
  let ?d = "(start - now) div (1000 * 60 * 60 * 24)"
  let ?h = "((start - now) mod (1000 * 60 * 60 * 24)) div (1000 * 60 * 60)"
  let ?m = "((start - now) mod (1000 * 60 * 60)) div (1000 * 60)"
  note b = truncated_decomposition [OF pos]
  have s1: "getTimeRemaining_Contests (Some start) now = show_int ?d @ ''d '' @ show_int ?h @ ''h '' @ show_int ?m @ ''m''"
    using True by (simp add: nd rd Let_def
          getTimeRemaining_Contests_def getTimeRemaining_part003_def getTimeRemaining_part003b_def
          getTimeRemaining_part007_def getTimeRemaining_Dashboard_def getTimeRemaining_Solutions_def
          getTimeRemaining_Calendar_def getTimeRemaining_part004_def getTimeStatus_def)
  have s2: "getTimeRemaining_part003 (Some start) now = show_int ?d @ ''d '' @ show_int ?h @ ''h '' @ show_int ?m @ ''m''"
    using True by (simp add: nd rd Let_def
          getTimeRemaining_Contests_def getTimeRemaining_part003_def getTimeRemaining_part003b_def
          getTimeRemaining_part007_def getTimeRemaining_Dashboard_def getTimeRemaining_Solutions_def
          getTimeRemaining_Calendar_def getTimeRemaining_part004_def getTimeStatus_def)
  have s3: "getTimeRemaining_part003b (Some start) now = show_int ?d @ ''d '' @ show_int ?h @ ''h '' @ show_int ?m @ ''m''"
    using True by (simp add: nd rd Let_def
          getTimeRemaining_Contests_def getTimeRemaining_part003_def getTimeRemaining_part003b_def
          getTimeRemaining_part007_def getTimeRemaining_Dashboard_def getTimeRemaining_Solutions_def
          getTimeRemaining_Calendar_def getTimeRemaining_part004_def getTimeStatus_def)
  have s4: "getTimeRemaining_part007 (Some start) now = show_int ?d @ ''d '' @ show_int ?h @ ''h '' @ show_int ?m @ ''m''"
    using True by (simp add: nd rd Let_def
          getTimeRemaining_Contests_def getTimeRemaining_part003_def getTimeRemaining_part003b_def
          getTimeRemaining_part007_def getTimeRemaining_Dashboard_def getTimeRemaining_Solutions_def
          getTimeRemaining_Calendar_def getTimeRemaining_part004_def getTimeStatus_def)
  have s5: "getTimeRemaining_Dashboard (Some start) now = show_int ?d @ ''d '' @ show_int ?h @ ''h '' @ show_int ?m @ ''m''"
    using True by (simp add: nd rd Let_def
          getTimeRemaining_Contests_def getTimeRemaining_part003_def getTimeRemaining_part003b_def
          getTimeRemaining_part007_def getTimeRemaining_Dashboard_def getTimeRemaining_Solutions_def
          getTimeRemaining_Calendar_def getTimeRemaining_part004_def getTimeStatus_def)
  have s6: "getTimeRemaining_Solutions (Some start) now = show_int ?d @ ''d '' @ show_int ?h @ ''h '' @ show_int ?m @ ''m''"
    using True by (simp add: nd rd Let_def
          getTimeRemaining_Contests_def getTimeRemaining_part003_def getTimeRemaining_part003b_def
          getTimeRemaining_part007_def getTimeRemaining_Dashboard_def getTimeRemaining_Solutions_def
          getTimeRemaining_Calendar_def getTimeRemaining_part004_def getTimeStatus_def)
  have s7: "getTimeRemaining_Calendar (Some start) now
          = (if ?d > 0 then show_int ?d @ ''d '' @ show_int ?h @ ''h '' @ show_int ?m @ ''m''
             else show_int ?h @ ''h '' @ show_int ?m @ ''m'')"
    using True by (simp add: nd rd Let_def
          getTimeRemaining_Contests_def getTimeRemaining_part003_def getTimeRemaining_part003b_def
          getTimeRemaining_part007_def getTimeRemaining_Dashboard_def getTimeRemaining_Solutions_def
          getTimeRemaining_Calendar_def getTimeRemaining_part004_def getTimeStatus_def)
  have s8: "getTimeRemaining_part004 (Some start) endTime now
          = (if ?d > 0 then show_int ?d @ ''d '' @ show_int ?h @ ''h '' @ show_int ?m @ ''m''
             else show_int ?h @ ''h '' @ show_int ?m @ ''m'')"
    using True by (simp add: nd rd Let_def
          getTimeRemaining_Contests_def getTimeRemaining_part003_def getTimeRemaining_part003b_def
          getTimeRemaining_part007_def getTimeRemaining_Dashboard_def getTimeRemaining_Solutions_def
          getTimeRemaining_Calendar_def getTimeRemaining_part004_def getTimeStatus_def)
  have s9: "getTimeStatus (Some start) now = ''Starts in '' @ show_int ?d @ ''d '' @ show_int ?h @ ''h''"
    using True by (simp add: nd rd Let_def
          getTimeRemaining_Contests_def getTimeRemaining_part003_def getTimeRemaining_part003b_def
          getTimeRemaining_part007_def getTimeRemaining_Dashboard_def getTimeRemaining_Solutions_def
          getTimeRemaining_Calendar_def getTimeRemaining_part004_def getTimeStatus_def)
  from b s1 s2 s3 s4 s5 s6 s7 s8 s9 True show ?thesis by (simp only: if_True) blast
next
  case False
  from assms(1) have nd: "new_Date (Some start) = Some start" by (simp add: new_Date_def)
  from False have rd: "round_double (start - now) \<le> 0" "\<not> 0 < round_double (start - now)"
    by (simp_all add: round_double_nonpos round_double_pos)
  from False rd show ?thesis
    by (simp add: nd Let_def
          getTimeRemaining_Contests_def getTimeRemaining_part003_def getTimeRemaining_part003b_def
          getTimeRemaining_part007_def getTimeRemaining_Dashboard_def getTimeRemaining_Solutions_def
          getTimeRemaining_Calendar_def getTimeRemaining_part004_def getTimeStatus_def)
qed

theorem time_remaining_truncated_while_upcoming_witness:
  "valid_time 5400000 \<and> valid_time 7200000
   \<and> (\<exists>days hours minutes.
       0 \<le> days \<and> 0 \<le> hours \<and> hours < 24 \<and> 0 \<le> minutes \<and> minutes < 60
     \<and> days * 86400000 + hours * 3600000 + minutes * 60000 \<le> (5400000::int)
     \<and> (5400000::int) < days * 86400000 + hours * 3600000 + minutes * 60000 + 60000
     \<and> getTimeRemaining_Contests (Some 5400000) 0 = show_int days @ ''d '' @ show_int hours @ ''h '' @ show_int minutes @ ''m''
     \<and> getTimeRemaining_part003 (Some 5400000) 0 = show_int days @ ''d '' @ show_int hours @ ''h '' @ show_int minutes @ ''m''
     \<and> getTimeRemaining_part003b (Some 5400000) 0 = show_int days @ ''d '' @ show_int hours @ ''h '' @ show_int minutes @ ''m''
     \<and> getTimeRemaining_part007 (Some 5400000) 0 = show_int days @ ''d '' @ show_int hours @ ''h '' @ show_int minutes @ ''m''
     \<and> getTimeRemaining_Dashboard (Some 5400000) 0 = show_int days @ ''d '' @ show_int hours @ ''h '' @ show_int minutes @ ''m''
     \<and> getTimeRemaining_Solutions (Some 5400000) 0 = show_int days @ ''d '' @ show_int hours @ ''h '' @ show_int minutes @ ''m''
     \<and> getTimeRemaining_Calendar (Some 5400000) 0
         = (if days > 0 then show_int days @ ''d '' @ show_int hours @ ''h '' @ show_int minutes @ ''m''
            else show_int hours @ ''h '' @ show_int minutes @ ''m'')
     \<and> getTimeRemaining_part004 (Some 5400000) (Some 9000000) 0
         = (if days > 0 then show_int days @ ''d '' @ show_int hours @ ''h '' @ show_int minutes @ ''m''
            else show_int hours @ ''h '' @ show_int minutes @ ''m'')
     \<and> getTimeStatus (Some 5400000) 0 = ''Starts in '' @ show_int days @ ''d '' @ show_int hours @ ''h'')
   \<and> getTimeRemaining_Contests (Some 7200000) 7200000 = ''Ended''
   \<and> getTimeRemaining_part003 (Some 7200000) 7200000 = ''Started''
   \<and> getTimeRemaining_part003b (Some 7200000) 7200000 = ''Ended''
   \<and> getTimeRemaining_part007 (Some 7200000) 7200000 = ''Ended''
   \<and> getTimeRemaining_Dashboard (Some 7200000) 7200000 = ''Started''
   \<and> getTimeRemaining_Solutions (Some 7200000) 7200000 = ''Started''
   \<and> getTimeRemaining_Calendar (Some 7200000) 7200000 = ''Ended''
   \<and> getTimeStatus (Some 7200000) 7200000 = ''Ended''
   \<and> getTimeRemaining_part004 (Some 7200000) (Some 9000000) 7200000
       = (if later (new_Date (Some 9000000)) 7200000 then ''Ongoing'' else ''Ended'')"
proof -
  have v: "valid_time 5400000" "valid_time 7200000"
    by (simp_all add: valid_time_def)
  have d: "(5400000::int) - 0 \<le> 9007199254740992" "(7200000::int) - 7200000 \<le> 9007199254740992"
    by simp_all
  from time_remaining_truncated_while_upcoming [OF v(1) d(1), of "Some 9000000"]
  have a: "\<exists>days hours minutes.
       0 \<le> days \<and> 0 \<le> hours \<and> hours < 24 \<and> 0 \<le> minutes \<and> minutes < 60
     \<and> days * 86400000 + hours * 3600000 + minutes * 60000 \<le> (5400000::int)
     \<and> (5400000::int) < days * 86400000 + hours * 3600000 + minutes * 60000 + 60000
     \<and> getTimeRemaining_Contests (Some 5400000) 0 = show_int days @ ''d '' @ show_int hours @ ''h '' @ show_int minutes @ ''m''
     \<and> getTimeRemaining_part003 (Some 5400000) 0 = show_int days @ ''d '' @ show_int hours @ ''h '' @ show_int minutes @ ''m''
     \<and> getTimeRemaining_part003b (Some 5400000) 0 = show_int days @ ''d '' @ show_int hours @ ''h '' @ show_int minutes @ ''m''
     \<and> getTimeRemaining_part007 (Some 5400000) 0 = show_int days @ ''d '' @ show_int hours @ ''h '' @ show_int minutes @ ''m''
     \<and> getTimeRemaining_Dashboard (Some 5400000) 0 = show_int days @ ''d '' @ show_int hours @ ''h '' @ show_int minutes @ ''m''
     \<and> getTimeRemaining_Solutions (Some 5400000) 0 = show_int days @ ''d '' @ show_int hours @ ''h '' @ show_int minutes @ ''m''
     \<and> getTimeRemaining_Calendar (Some 5400000) 0
         = (if days > 0 then show_int days @ ''d '' @ show_int hours @ ''h '' @ show_int minutes @ ''m''
            else show_int hours @ ''h '' @ show_int minutes @ ''m'')
     \<and> getTimeRemaining_part004 (Some 5400000) (Some 9000000) 0
         = (if days > 0 then show_int days @ ''d '' @ show_int hours @ ''h '' @ show_int minutes @ ''m''
            else show_int hours @ ''h '' @ show_int minutes @ ''m'')
     \<and> getTimeStatus (Some 5400000) 0 = ''Starts in '' @ show_int days @ ''d '' @ show_int hours @ ''h''"
    by simp
  from time_remaining_truncated_while_upcoming [OF v(2) d(2), of "Some 9000000"]
  have b: "getTimeRemaining_Contests (Some 7200000) 7200000 = ''Ended''
   \<and> getTimeRemaining_part003 (Some 7200000) 7200000 = ''Started''
   \<and> getTimeRemaining_part003b (Some 7200000) 7200000 = ''Ended''
   \<and> getTimeRemaining_part007 (Some 7200000) 7200000 = ''Ended''
   \<and> getTimeRemaining_Dashboard (Some 7200000) 7200000 = ''Started''
   \<and> getTimeRemaining_Solutions (Some 7200000) 7200000 = ''Started''
   \<and> getTimeRemaining_Calendar (Some 7200000) 7200000 = ''Ended''
   \<and> getTimeStatus (Some 7200000) 7200000 = ''Ended''
   \<and> getTimeRemaining_part004 (Some 7200000) (Some 9000000) 7200000
       = (if later (new_Date (Some 9000000)) 7200000 then ''Ongoing'' else ''Ended'')"
    by simp
  from v a b show ?thesis by blast
qed

text \<open>
  The claim of C9 as stated fails. Ninety minutes before the start the renderers show
  three different texts, the one of part_008 without the thirty minutes; at the start
  itself the text is a label, not a duration of zero, and the labels differ.
\<close>

theorem time_remaining_counterexample:
  "getTimeRemaining_Contests (Some 5400000) 0 = ''0d 1h 30m''
   \<and> getTimeRemaining_part004 (Some 5400000) (Some 9000000) 0 = ''1h 30m''
   \<and> getTimeStatus (Some 5400000) 0 = ''Starts in 0d 1h''
   \<and> getTimeRemaining_Contests (Some 5400000) 0
        \<noteq> getTimeRemaining_part004 (Some 5400000) (Some 9000000) 0
   \<and> getTimeRemaining_Contests (Some 0) 0 = ''Ended''
   \<and> getTimeRemaining_Dashboard (Some 0) 0 = ''Started''
   \<and> getTimeRemaining_part004 (Some 0) (Some 7200000) 0 = ''Ongoing''"
  by code_simp

text \<open>
  A start that does not parse: \<open>diffMs\<close> is \<open>NaN\<close>, no comparison holds, and the
  renderers print \<open>NaN\<close> for the numbers or fall through to a label.
\<close>

lemma time_remaining_of_an_invalid_date:
  "getTimeRemaining_Contests None now = ''NaNd NaNh NaNm''
   \<and> getTimeRemaining_part003 None now = ''NaNd NaNh NaNm''
   \<and> getTimeRemaining_part003b None now = ''NaNd NaNh NaNm''
   \<and> getTimeRemaining_part007 None now = ''NaNd NaNh NaNm''
   \<and> getTimeRemaining_Dashboard None now = ''NaNd NaNh NaNm''
   \<and> getTimeRemaining_Solutions None now = ''NaNd NaNh NaNm''
   \<and> getTimeRemaining_Calendar None now = ''NaNh NaNm''
   \<and> getTimeStatus None now = ''Ended''
   \<and> getTimeRemaining_part004 None None now = ''Ended''"
  by (simp add: new_Date_def later_def Let_def
          getTimeRemaining_Contests_def getTimeRemaining_part003_def getTimeRemaining_part003b_def
          getTimeRemaining_part007_def getTimeRemaining_Dashboard_def getTimeRemaining_Solutions_def
          getTimeRemaining_Calendar_def getTimeRemaining_part004_def getTimeStatus_def)

end
